theory Spec2Isabelle
  imports Main "HOL-Library.Sublist"
begin

section \<open>Go string helpers used by the resources\<close>

text \<open>
  Go strings are byte sequences; they are modelled as \<open>string\<close> (a list of characters).
  The functions of package \<open>strings\<close> and \<open>strconv\<close> that the resources call are
  written out here with the behaviour their documentation gives.
\<close>

definition newline :: char where
  "newline = CHR 0x0A"

definition HasPrefix :: "string \<Rightarrow> string \<Rightarrow> bool" where
  \<comment> \<open>\<open>strings.HasPrefix(s, p)\<close>\<close>
  "HasPrefix s p = prefix p s"

definition TrimPrefix :: "string \<Rightarrow> string \<Rightarrow> string" where
  \<comment> \<open>\<open>strings.TrimPrefix(s, p)\<close>: \<open>s\<close> without the leading \<open>p\<close>, or \<open>s\<close> unchanged\<close>
  "TrimPrefix s p = (if prefix p s then drop (length p) s else s)"

fun Contains :: "string \<Rightarrow> string \<Rightarrow> bool" where
  \<comment> \<open>\<open>strings.Contains(s, substr)\<close>\<close>
  "Contains [] sub = (sub = [])"
| "Contains (c # cs) sub = (prefix sub (c # cs) \<or> Contains cs sub)"

fun Split :: "string \<Rightarrow> char \<Rightarrow> string list" where
  \<comment> \<open>\<open>strings.Split(s, sep)\<close> for a separator of one character; the result is never empty\<close>
  "Split [] sep = [[]]"
| "Split (c # cs) sep =
     (if c = sep then [] # Split cs sep
      else (c # hd (Split cs sep)) # tl (Split cs sep))"

fun Join :: "string list \<Rightarrow> char \<Rightarrow> string" where
  \<comment> \<open>\<open>strings.Join(elems, sep)\<close> for a separator of one character\<close>
  "Join [] sep = []"
| "Join [x] sep = x"
| "Join (x # y # ys) sep = x @ sep # Join (y # ys) sep"

definition Trim :: "string \<Rightarrow> char \<Rightarrow> string" where
  \<comment> \<open>\<open>strings.Trim(s, cutset)\<close> for a cutset of one character\<close>
  "Trim s c = rev (dropWhile (\<lambda>x. x = c) (rev (dropWhile (\<lambda>x. x = c) s)))"

subsection \<open>strconv.Itoa and strconv.Atoi\<close>

definition digit_char :: "nat \<Rightarrow> char" where
  "digit_char d = char_of (48 + d)"

definition is_digit :: "char \<Rightarrow> bool" where
  "is_digit c = (48 \<le> (of_char c :: nat) \<and> (of_char c :: nat) \<le> 57)"

definition digit_val :: "char \<Rightarrow> nat" where
  "digit_val c = of_char c - 48"

function digits :: "nat \<Rightarrow> string" where
  "digits n = (if n < 10 then [digit_char n] else digits (n div 10) @ [digit_char (n mod 10)])"
  by pat_completeness auto
termination
  by (relation "measure (\<lambda>n. n)") auto

declare digits.simps [simp del]

definition digits_val :: "string \<Rightarrow> nat" where
  "digits_val ds = foldl (\<lambda>a c. 10 * a + digit_val c) 0 ds"

definition Itoa :: "int \<Rightarrow> string" where
  \<comment> \<open>\<open>strconv.Itoa\<close>: the decimal representation, with a leading minus sign when negative\<close>
  "Itoa i = (if i < 0 then CHR ''-'' # digits (nat (- i)) else digits (nat i))"

definition int_min :: int where
  "int_min = - (2 ^ 63)"

definition int_max :: int where
  "int_max = 2 ^ 63 - 1"

definition Atoi :: "string \<Rightarrow> int option" where
  \<comment> \<open>\<open>strconv.Atoi\<close> on a platform whose \<open>int\<close> has 64 bits: an optional sign, then one
      or more decimal digits, and a value in range; \<open>None\<close> is the returned error\<close>
  "Atoi s =
     (let neg = (s \<noteq> [] \<and> hd s = CHR ''-'');
          ds = (if s \<noteq> [] \<and> (hd s = CHR ''-'' \<or> hd s = CHR ''+'') then tl s else s)
      in if ds = [] \<or> \<not> list_all is_digit ds then None
         else let v = (if neg then - int (digits_val ds) else int (digits_val ds))
              in if v < int_min \<or> int_max < v then None else Some v)"

section \<open>Package constants and errors\<close>

text \<open>
  The package constants \<open>emptyWord\<close>, \<open>setLineStart\<close>, \<open>idSeparator\<close>, \<open>defaultWord\<close>,
  \<open>opsfV2\<close> and \<open>ospfV3\<close> are declared in a file of the package that is not part of the
  sources at hand. The functions below take them as a parameter \<open>K\<close>.
\<close>

record constants =
  emptyWord :: string
  setLineStart :: string
  idSeparator :: string
  defaultWord :: string
  opsfV2 :: string
  ospfV3 :: string

definition junos_consts :: constants where
  \<comment> \<open>Sample values for concrete evaluations; \<open>setLineStart\<close> is the literal \<open>"set "\<close> that
      the relative display puts in front of every line.\<close>
  "junos_consts = \<lparr> emptyWord = ''empty'', setLineStart = ''set '', idSeparator = ''_-_'',
     defaultWord = ''default'', opsfV2 = ''ospf'', ospfV3 = ''ospf3'' \<rparr>"

text \<open>
  The resources build their errors with \<open>fmt.Errorf\<close>; each message format is one
  constructor here, carrying the values the message is formatted with.
\<close>

datatype error =
    TransportError string
      \<comment> \<open>an error returned by the session (\<open>startNewSession\<close>, \<open>command\<close>, \<open>configSet\<close>, \<open>commitConf\<close>)\<close>
  | UnsupportedOnPlatform
      \<comment> \<open>"... not compatible with Junos device ..."\<close>
  | AlreadyExists "string list"
      \<comment> \<open>"... already exists", with the values the message names\<close>
  | CommitVerificationFailed "string list"
      \<comment> \<open>"... not exists after commit => check your config", with the values the message names\<close>
  | InvalidNumberFormat string
      \<comment> \<open>"failed to convert value from '%s' to integer"\<close>
  | SecretDecodeError string
      \<comment> \<open>"failed to decode pre-shared-key ..."\<close>
  | UnknownIkeMode string
      \<comment> \<open>"unknown ike mode %v"\<close>

definition beginMarker :: string where
  "beginMarker = ''<configuration-output>''"

definition endMarker :: string where
  "endMarker = ''</configuration-output>''"

section \<open>Resource junos\_security\_ipsec\_policy: the codec\<close>

record ipsecPolicyOptions =
  ipo_name :: string
  ipo_pfsKeys :: string
  ipo_proposals :: "string list"

text \<open>The resource data \<open>d\<close> of the schema: the identity and the three attributes.\<close>

record ipsecPolicyData =
  ipd_id :: string
  ipd_name :: string
  ipd_proposals :: "string list"
  ipd_pfs_keys :: string

definition ipsecPolicyOptions_zero :: ipsecPolicyOptions where
  \<comment> \<open>\<open>var confRead ipsecPolicyOptions\<close>\<close>
  "ipsecPolicyOptions_zero = \<lparr> ipo_name = [], ipo_pfsKeys = [], ipo_proposals = [] \<rparr>"

definition setIpsecPolicy_configSet :: "ipsecPolicyData \<Rightarrow> string list" where
  \<comment> \<open>the slice \<open>configSet\<close> that \<open>setIpsecPolicy\<close> builds before it calls \<open>sess.configSet\<close>\<close>
  "setIpsecPolicy_configSet d =
     (let setPrefix = ''set security ipsec policy '' @ ipd_name d in
        (if ipd_pfs_keys d \<noteq> [] then [setPrefix @ '' perfect-forward-secrecy keys '' @ ipd_pfs_keys d] else [])
        @ map (\<lambda>v. setPrefix @ '' proposals '' @ v) (ipd_proposals d))"

definition stepIpsecPolicy :: "constants \<Rightarrow> string \<Rightarrow> ipsecPolicyOptions \<Rightarrow> ipsecPolicyOptions" where
  \<comment> \<open>the \<open>switch\<close> in the loop of \<open>readIpsecPolicy\<close>, on one line\<close>
  "stepIpsecPolicy K item confRead =
     (let itemTrim = TrimPrefix item (setLineStart K) in
        if HasPrefix itemTrim ''proposals '' then
          confRead\<lparr> ipo_proposals := ipo_proposals confRead @ [TrimPrefix itemTrim ''proposals ''] \<rparr>
        else if HasPrefix itemTrim ''perfect-forward-secrecy keys '' then
          confRead\<lparr> ipo_pfsKeys := TrimPrefix itemTrim ''perfect-forward-secrecy keys '' \<rparr>
        else confRead)"

fun loopIpsecPolicy :: "constants \<Rightarrow> string list \<Rightarrow> ipsecPolicyOptions \<Rightarrow> ipsecPolicyOptions" where
  \<comment> \<open>the \<open>for ... range strings.Split(ipsecPolicyConfig, "\n")\<close> loop\<close>
  "loopIpsecPolicy K [] confRead = confRead"
| "loopIpsecPolicy K (item # rest) confRead =
     (if Contains item beginMarker then loopIpsecPolicy K rest confRead
      else if Contains item endMarker then confRead
      else loopIpsecPolicy K rest (stepIpsecPolicy K item confRead))"

definition parseIpsecPolicy :: "constants \<Rightarrow> string \<Rightarrow> string \<Rightarrow> error + ipsecPolicyOptions" where
  \<comment> \<open>\<open>readIpsecPolicy\<close> after the command has returned \<open>ipsecPolicyConfig\<close> without error\<close>
  "parseIpsecPolicy K ipsecPolicy ipsecPolicyConfig =
     (if ipsecPolicyConfig \<noteq> emptyWord K then
        Inr (loopIpsecPolicy K (Split ipsecPolicyConfig newline)
               (ipsecPolicyOptions_zero\<lparr> ipo_name := ipsecPolicy \<rparr>))
      else Inr (ipsecPolicyOptions_zero\<lparr> ipo_name := [] \<rparr>))"

section \<open>Resource junos\_security\_ike\_proposal: the codec\<close>

record ikeProposalOptions =
  kpo_lifetimeSeconds :: int
  kpo_name :: string
  kpo_authenticationAlgorithm :: string
  kpo_authenticationMethod :: string
  kpo_dhGroup :: string
  kpo_encryptionAlgorithm :: string

record ikeProposalData =
  kpd_id :: string
  kpd_name :: string
  kpd_authentication_algorithm :: string
  kpd_authentication_method :: string
  kpd_dh_group :: string
  kpd_encryption_algorithm :: string
  kpd_lifetime_seconds :: int

definition ikeProposalOptions_zero :: ikeProposalOptions where
  "ikeProposalOptions_zero = \<lparr> kpo_lifetimeSeconds = 0, kpo_name = [],
     kpo_authenticationAlgorithm = [], kpo_authenticationMethod = [], kpo_dhGroup = [],
     kpo_encryptionAlgorithm = [] \<rparr>"

definition setIkeProposal_configSet :: "ikeProposalData \<Rightarrow> string list" where
  \<comment> \<open>the slice \<open>configSet\<close> that \<open>setIkeProposal\<close> builds\<close>
  "setIkeProposal_configSet d =
     (let setPrefix = ''set security ike proposal '' @ kpd_name d in
        (if kpd_authentication_method d \<noteq> []
         then [setPrefix @ '' authentication-method '' @ kpd_authentication_method d] else [])
      @ (if kpd_authentication_algorithm d \<noteq> []
         then [setPrefix @ '' authentication-algorithm '' @ kpd_authentication_algorithm d] else [])
      @ (if kpd_dh_group d \<noteq> []
         then [setPrefix @ '' dh-group '' @ kpd_dh_group d] else [])
      @ (if kpd_encryption_algorithm d \<noteq> []
         then [setPrefix @ '' encryption-algorithm '' @ kpd_encryption_algorithm d] else [])
      @ (if kpd_lifetime_seconds d \<noteq> 0
         then [setPrefix @ '' lifetime-seconds '' @ Itoa (kpd_lifetime_seconds d)] else []))"

definition stepIkeProposal ::
  "constants \<Rightarrow> string \<Rightarrow> ikeProposalOptions \<Rightarrow> error + ikeProposalOptions" where
  \<comment> \<open>the \<open>switch\<close> in the loop of \<open>readIkeProposal\<close>; \<open>Inl\<close> is the early \<open>return confRead, err\<close>\<close>
  "stepIkeProposal K item confRead =
     (let itemTrim = TrimPrefix item (setLineStart K) in
        if HasPrefix itemTrim ''authentication-algorithm '' then
          Inr (confRead\<lparr> kpo_authenticationAlgorithm := TrimPrefix itemTrim ''authentication-algorithm '' \<rparr>)
        else if HasPrefix itemTrim ''authentication-method '' then
          Inr (confRead\<lparr> kpo_authenticationMethod := TrimPrefix itemTrim ''authentication-method '' \<rparr>)
        else if HasPrefix itemTrim ''dh-group '' then
          Inr (confRead\<lparr> kpo_dhGroup := TrimPrefix itemTrim ''dh-group '' \<rparr>)
        else if HasPrefix itemTrim ''encryption-algorithm'' then
          Inr (confRead\<lparr> kpo_encryptionAlgorithm := TrimPrefix itemTrim ''encryption-algorithm '' \<rparr>)
        else if HasPrefix itemTrim ''lifetime-seconds'' then
          (case Atoi (TrimPrefix itemTrim ''lifetime-seconds '') of
             None \<Rightarrow> Inl (InvalidNumberFormat itemTrim)
           | Some v \<Rightarrow> Inr (confRead\<lparr> kpo_lifetimeSeconds := v \<rparr>))
        else Inr confRead)"

fun loopIkeProposal ::
  "constants \<Rightarrow> string list \<Rightarrow> ikeProposalOptions \<Rightarrow> error + ikeProposalOptions" where
  "loopIkeProposal K [] confRead = Inr confRead"
| "loopIkeProposal K (item # rest) confRead =
     (if Contains item beginMarker then loopIkeProposal K rest confRead
      else if Contains item endMarker then Inr confRead
      else (case stepIkeProposal K item confRead of
              Inl err \<Rightarrow> Inl err
            | Inr confRead' \<Rightarrow> loopIkeProposal K rest confRead'))"

definition parseIkeProposal :: "constants \<Rightarrow> string \<Rightarrow> string \<Rightarrow> error + ikeProposalOptions" where
  \<comment> \<open>\<open>readIkeProposal\<close> after the command has returned \<open>ikeProposalConfig\<close> without error\<close>
  "parseIkeProposal K ikeProposal ikeProposalConfig =
     (if ikeProposalConfig \<noteq> emptyWord K then
        loopIkeProposal K (Split ikeProposalConfig newline)
          (ikeProposalOptions_zero\<lparr> kpo_name := ikeProposal \<rparr>)
      else Inr (ikeProposalOptions_zero\<lparr> kpo_name := [] \<rparr>))"

section \<open>Resource junos\_security\_ike\_policy: the codec\<close>

text \<open>
  \<open>jdecode.Decode\<close> belongs to the imported package junosdecode. It is a parameter
  \<open>dec\<close> of the functions that call it: \<open>Inl\<close> is its error, \<open>Inr\<close> the decoded secret.
\<close>

record ikePolicyOptions =
  kyo_name :: string
  kyo_mode :: string
  kyo_preSharedKeyText :: string
  kyo_preSharedKeyHexa :: string
  kyo_proposals :: "string list"

record ikePolicyData =
  kyd_id :: string
  kyd_name :: string
  kyd_proposals :: "string list"
  kyd_mode :: string
  kyd_pre_shared_key_text :: string
  kyd_pre_shared_key_hexa :: string

definition ikePolicyOptions_zero :: ikePolicyOptions where
  "ikePolicyOptions_zero = \<lparr> kyo_name = [], kyo_mode = [], kyo_preSharedKeyText = [],
     kyo_preSharedKeyHexa = [], kyo_proposals = [] \<rparr>"

definition setIkePolicy_configSet :: "ikePolicyData \<Rightarrow> error + string list" where
  \<comment> \<open>the slice \<open>configSet\<close> that \<open>setIkePolicy\<close> builds, or its error on an unknown mode\<close>
  "setIkePolicy_configSet d =
     (let setPrefix = ''set security ike policy '' @ kyd_name d in
        if kyd_mode d \<noteq> [] \<and> kyd_mode d \<noteq> ''main'' \<and> kyd_mode d \<noteq> ''aggressive''
        then Inl (UnknownIkeMode (kyd_mode d))
        else Inr (
            (if kyd_mode d \<noteq> [] then [setPrefix @ '' mode '' @ kyd_mode d] else [])
          @ map (\<lambda>v. setPrefix @ '' proposals '' @ v) (kyd_proposals d)
          @ (if kyd_pre_shared_key_text d \<noteq> []
             then [setPrefix @ '' pre-shared-key ascii-text '' @ kyd_pre_shared_key_text d] else [])
          @ (if kyd_pre_shared_key_hexa d \<noteq> []
             then [setPrefix @ '' pre-shared-key hexadecimal '' @ kyd_pre_shared_key_hexa d] else [])))"

definition stepIkePolicy ::
  "constants \<Rightarrow> (string \<Rightarrow> string + string) \<Rightarrow> string \<Rightarrow> ikePolicyOptions \<Rightarrow> error + ikePolicyOptions" where
  "stepIkePolicy K dec item confRead =
     (let itemTrim = TrimPrefix item (setLineStart K) in
        if HasPrefix itemTrim ''mode '' then
          Inr (confRead\<lparr> kyo_mode := TrimPrefix itemTrim ''mode '' \<rparr>)
        else if HasPrefix itemTrim ''proposals '' then
          Inr (confRead\<lparr> kyo_proposals := kyo_proposals confRead @ [TrimPrefix itemTrim ''proposals ''] \<rparr>)
        else if HasPrefix itemTrim ''pre-shared-key hexadecimal '' then
          (case dec (Trim (TrimPrefix itemTrim ''pre-shared-key hexadecimal '') (CHR 0x22)) of
             Inl err \<Rightarrow> Inl (SecretDecodeError err)
           | Inr v \<Rightarrow> Inr (confRead\<lparr> kyo_preSharedKeyHexa := v \<rparr>))
        else if HasPrefix itemTrim ''pre-shared-key ascii-text '' then
          (case dec (Trim (TrimPrefix itemTrim ''pre-shared-key ascii-text '') (CHR 0x22)) of
             Inl err \<Rightarrow> Inl (SecretDecodeError err)
           | Inr v \<Rightarrow> Inr (confRead\<lparr> kyo_preSharedKeyText := v \<rparr>))
        else Inr confRead)"

fun loopIkePolicy ::
  "constants \<Rightarrow> (string \<Rightarrow> string + string) \<Rightarrow> string list \<Rightarrow> ikePolicyOptions
     \<Rightarrow> error + ikePolicyOptions" where
  "loopIkePolicy K dec [] confRead = Inr confRead"
| "loopIkePolicy K dec (item # rest) confRead =
     (if Contains item beginMarker then loopIkePolicy K dec rest confRead
      else if Contains item endMarker then Inr confRead
      else (case stepIkePolicy K dec item confRead of
              Inl err \<Rightarrow> Inl err
            | Inr confRead' \<Rightarrow> loopIkePolicy K dec rest confRead'))"

definition parseIkePolicy ::
  "constants \<Rightarrow> (string \<Rightarrow> string + string) \<Rightarrow> string \<Rightarrow> string \<Rightarrow> error + ikePolicyOptions" where
  \<comment> \<open>\<open>readIkePolicy\<close> after the command has returned \<open>ikePolicyConfig\<close> without error\<close>
  "parseIkePolicy K dec ikePolicy ikePolicyConfig =
     (if ikePolicyConfig \<noteq> emptyWord K then
        loopIkePolicy K dec (Split ikePolicyConfig newline)
          (ikePolicyOptions_zero\<lparr> kyo_name := ikePolicy \<rparr>)
      else Inr (ikePolicyOptions_zero\<lparr> kyo_name := [] \<rparr>))"

section \<open>Resource junos\_ospf\_area: the codec\<close>

text \<open>
  An element of the \<open>interface\<close> list is a Go map with the seven keys of the schema;
  it is a record here, one field per key.
\<close>

record ospfInterface =
  if_name :: string
  if_disable :: bool
  if_passive :: bool
  if_metric :: int
  if_hello_interval :: int
  if_retransmit_interval :: int
  if_dead_interval :: int

record ospfAreaOptions =
  oao_areaID :: string
  oao_routingInstance :: string
  oao_version :: string
  oao_interFace :: "ospfInterface list"

record ospfAreaData =
  oad_id :: string
  oad_area_id :: string
  oad_routing_instance :: string
  oad_version :: string
  oad_interface :: "ospfInterface list"

definition ospfAreaOptions_zero :: ospfAreaOptions where
  "ospfAreaOptions_zero = \<lparr> oao_areaID = [], oao_routingInstance = [], oao_version = [],
     oao_interFace = [] \<rparr>"

definition ospfVersion_of :: "constants \<Rightarrow> string \<Rightarrow> string" where
  \<comment> \<open>\<open>ospfVersion := opsfV2; if version == "v3" { ospfVersion = ospfV3 }\<close>\<close>
  "ospfVersion_of K version = (if version = ''v3'' then ospfV3 K else opsfV2 K)"

definition setOspfArea_interface :: "string \<Rightarrow> ospfInterface \<Rightarrow> string list" where
  \<comment> \<open>the body of the loop of \<open>setOspfArea\<close> over the interfaces: the lines one interface appends\<close>
  "setOspfArea_interface setPrefix ospfInterface =
     (let setPrefixInterface = setPrefix @ ''interface '' @ if_name ospfInterface @ '' '' in
        (if if_disable ospfInterface then [setPrefixInterface @ ''disable''] else [])
      @ (if if_passive ospfInterface then [setPrefixInterface @ ''passive''] else [])
      @ (if if_metric ospfInterface \<noteq> 0
         then [setPrefixInterface @ ''metric '' @ Itoa (if_metric ospfInterface)] else [])
      @ (if if_hello_interval ospfInterface \<noteq> 0
         then [setPrefixInterface @ ''hello-interval '' @ Itoa (if_hello_interval ospfInterface)] else [])
      @ (if if_retransmit_interval ospfInterface \<noteq> 0
         then [setPrefixInterface @ ''retransmit-interval '' @ Itoa (if_retransmit_interval ospfInterface)] else [])
      @ (if if_dead_interval ospfInterface \<noteq> 0
         then [setPrefixInterface @ ''dead-interval '' @ Itoa (if_dead_interval ospfInterface)] else []))"

definition ospfArea_path :: "constants \<Rightarrow> string \<Rightarrow> string \<Rightarrow> string \<Rightarrow> string" where
  \<comment> \<open>the configuration path of an area, as \<open>setOspfArea\<close>, \<open>delOspfArea\<close> and the show commands build it\<close>
  "ospfArea_path K idArea version routingInstance =
     (if routingInstance = defaultWord K
      then ''protocols '' @ ospfVersion_of K version @ '' area '' @ idArea
      else ''routing-instances '' @ routingInstance @ '' protocols '' @ ospfVersion_of K version
             @ '' area '' @ idArea)"

definition setOspfArea_configSet :: "constants \<Rightarrow> ospfAreaData \<Rightarrow> string list" where
  \<comment> \<open>the slice \<open>configSet\<close> that \<open>setOspfArea\<close> builds\<close>
  "setOspfArea_configSet K d =
     (let setPrefix = setLineStart K
            @ ospfArea_path K (oad_area_id d) (oad_version d) (oad_routing_instance d) @ '' ''
      in concat (map (setOspfArea_interface setPrefix) (oad_interface d)))"

text \<open>
  Modelled from the spec: \<open>copyAndRemoveItemMapList\<close> is a helper of the package that is
  not part of the sources at hand; \<open>readOspfArea\<close> calls it with the identifier \<open>"name"\<close>, a
  fresh sub-record holding the key and the default fields, and the list read so far, and
  appends the sub-record it returns to the list it returns. The specification (4.3): the
  key is looked up in the existing list; if present, the existing sub-record is handed to
  the caller and its old occurrence is removed before the caller re-adds the record; if
  absent, the fresh default sub-record is handed to the caller. The caller in the sources
  only appends, so the removal is in the helper, as its name says.
\<close>

fun copyAndRemoveItemMapList ::
  "ospfInterface \<Rightarrow> ospfInterface list \<Rightarrow> ospfInterface \<times> ospfInterface list" where
  "copyAndRemoveItemMapList m [] = (m, [])"
| "copyAndRemoveItemMapList m (element # list) =
     (if if_name element = if_name m then (element, list)
      else (fst (copyAndRemoveItemMapList m list), element # snd (copyAndRemoveItemMapList m list)))"

definition interfaceOptions_default :: "string \<Rightarrow> ospfInterface" where
  "interfaceOptions_default n = \<lparr> if_name = n, if_disable = False, if_passive = False,
     if_metric = 0, if_hello_interval = 0, if_retransmit_interval = 0, if_dead_interval = 0 \<rparr>"

definition switchOspfInterface :: "string \<Rightarrow> ospfInterface \<Rightarrow> error + ospfInterface" where
  \<comment> \<open>the \<open>switch\<close> of \<open>readOspfArea\<close> on \<open>itemTrimInterface\<close>\<close>
  "switchOspfInterface itemTrimInterface interfaceOptions =
     (if HasPrefix itemTrimInterface ''disable'' then
        Inr (interfaceOptions\<lparr> if_disable := True \<rparr>)
      else if HasPrefix itemTrimInterface ''passive'' then
        Inr (interfaceOptions\<lparr> if_passive := True \<rparr>)
      else if HasPrefix itemTrimInterface ''metric '' then
        (case Atoi (TrimPrefix itemTrimInterface ''metric '') of
           None \<Rightarrow> Inl (InvalidNumberFormat itemTrimInterface)
         | Some v \<Rightarrow> Inr (interfaceOptions\<lparr> if_metric := v \<rparr>))
      else if HasPrefix itemTrimInterface ''hello-interval '' then
        (case Atoi (TrimPrefix itemTrimInterface ''hello-interval '') of
           None \<Rightarrow> Inl (InvalidNumberFormat itemTrimInterface)
         | Some v \<Rightarrow> Inr (interfaceOptions\<lparr> if_hello_interval := v \<rparr>))
      else if HasPrefix itemTrimInterface ''retransmit-interval '' then
        (case Atoi (TrimPrefix itemTrimInterface ''retransmit-interval '') of
           None \<Rightarrow> Inl (InvalidNumberFormat itemTrimInterface)
         | Some v \<Rightarrow> Inr (interfaceOptions\<lparr> if_retransmit_interval := v \<rparr>))
      else if HasPrefix itemTrimInterface ''dead-interval '' then
        (case Atoi (TrimPrefix itemTrimInterface ''dead-interval '') of
           None \<Rightarrow> Inl (InvalidNumberFormat itemTrimInterface)
         | Some v \<Rightarrow> Inr (interfaceOptions\<lparr> if_dead_interval := v \<rparr>))
      else Inr interfaceOptions)"

definition stepOspfArea :: "constants \<Rightarrow> string \<Rightarrow> ospfAreaOptions \<Rightarrow> error + ospfAreaOptions" where
  \<comment> \<open>the body of the loop of \<open>readOspfArea\<close> below the two marker tests, on one line\<close>
  "stepOspfArea K item confRead =
     (let itemTrim = TrimPrefix item (setLineStart K) in
        if HasPrefix itemTrim ''interface '' then
          (let itemInterfaceList = Split (TrimPrefix itemTrim ''interface '') (CHR '' '');
               interfaceOptions = interfaceOptions_default (hd itemInterfaceList);
               itemTrimInterface = TrimPrefix itemTrim (''interface '' @ hd itemInterfaceList @ '' '');
               r = copyAndRemoveItemMapList interfaceOptions (oao_interFace confRead)
           in case switchOspfInterface itemTrimInterface (fst r) of
                Inl err \<Rightarrow> Inl err
              | Inr interfaceOptions' \<Rightarrow>
                  Inr (confRead\<lparr> oao_interFace := snd r @ [interfaceOptions'] \<rparr>))
        else Inr confRead)"

fun loopOspfArea :: "constants \<Rightarrow> string list \<Rightarrow> ospfAreaOptions \<Rightarrow> error + ospfAreaOptions" where
  "loopOspfArea K [] confRead = Inr confRead"
| "loopOspfArea K (item # rest) confRead =
     (if Contains item beginMarker then loopOspfArea K rest confRead
      else if Contains item endMarker then Inr confRead
      else (case stepOspfArea K item confRead of
              Inl err \<Rightarrow> Inl err
            | Inr confRead' \<Rightarrow> loopOspfArea K rest confRead'))"

definition parseOspfArea ::
  "constants \<Rightarrow> string \<Rightarrow> string \<Rightarrow> string \<Rightarrow> string \<Rightarrow> error + ospfAreaOptions" where
  \<comment> \<open>\<open>readOspfArea\<close> after the command has returned \<open>ospfAreaConfig\<close> without error\<close>
  "parseOspfArea K idArea version routingInstance ospfAreaConfig =
     (if ospfAreaConfig \<noteq> emptyWord K then
        loopOspfArea K (Split ospfAreaConfig newline)
          (ospfAreaOptions_zero\<lparr> oao_areaID := idArea, oao_version := version,
             oao_routingInstance := routingInstance \<rparr>)
      else Inr (ospfAreaOptions_zero\<lparr> oao_areaID := [] \<rparr>))"

section \<open>The session\<close>

text \<open>
  The methods of \<open>Session\<close> (\<open>startNewSession\<close>, \<open>closeSession\<close>, \<open>configLock\<close>,
  \<open>configClear\<close>, \<open>command\<close>, \<open>configSet\<close>, \<open>commitConf\<close>) and
  \<open>checkCompatibilitySecurity\<close> talk to the device and are not part of the sources at
  hand. A lifecycle operation is modelled over a log of the calls it has made, each with
  the answer it got; what the device answers to a call is a parameter, a function of the
  log so far. \<open>d.SetId\<close> is logged as well.
\<close>

datatype event =
    EvStartSession "string option"
  | EvCloseSession
  | EvConfigLock
  | EvConfigClear
  | EvCommand string "string + string"
  | EvConfigSet "string list" "string option"
  | EvCommitConf string "string option"
  | EvSetId string

record session =
  startNewSession_answer :: "event list \<Rightarrow> string option"
    \<comment> \<open>\<open>Some msg\<close>: the call fails with \<open>msg\<close>\<close>
  command_answer :: "event list \<Rightarrow> string \<Rightarrow> string + string"
    \<comment> \<open>\<open>Inl msg\<close>: the error; \<open>Inr text\<close>: the raw text\<close>
  configSet_answer :: "event list \<Rightarrow> string list \<Rightarrow> string option"
  commitConf_answer :: "event list \<Rightarrow> string \<Rightarrow> string option"
  checkCompatibilitySecurity :: bool

definition startNewSession :: "session \<Rightarrow> event list \<Rightarrow> string option \<times> event list" where
  "startNewSession sess log =
     (startNewSession_answer sess log, log @ [EvStartSession (startNewSession_answer sess log)])"

definition closeSession :: "event list \<Rightarrow> event list" where
  "closeSession log = log @ [EvCloseSession]"

definition configLock :: "event list \<Rightarrow> event list" where
  "configLock log = log @ [EvConfigLock]"

definition configClear :: "event list \<Rightarrow> event list" where
  "configClear log = log @ [EvConfigClear]"

definition command :: "session \<Rightarrow> event list \<Rightarrow> string \<Rightarrow> (string + string) \<times> event list" where
  "command sess log q = (command_answer sess log q, log @ [EvCommand q (command_answer sess log q)])"

definition configSet :: "session \<Rightarrow> event list \<Rightarrow> string list \<Rightarrow> string option \<times> event list" where
  "configSet sess log ls = (configSet_answer sess log ls, log @ [EvConfigSet ls (configSet_answer sess log ls)])"

definition commitConf :: "session \<Rightarrow> event list \<Rightarrow> string \<Rightarrow> string option \<times> event list" where
  "commitConf sess log msg =
     (commitConf_answer sess log msg, log @ [EvCommitConf msg (commitConf_answer sess log msg)])"

definition deferred_close :: "'r \<times> event list \<times> 'd \<Rightarrow> 'r \<times> event list \<times> 'd" where
  \<comment> \<open>\<open>defer sess.closeSession(jnprSess)\<close>: the session is closed when the function returns\<close>
  "deferred_close r = (fst r, closeSession (fst (snd r)), snd (snd r))"

definition checkExists ::
  "constants \<Rightarrow> session \<Rightarrow> event list \<Rightarrow> string \<Rightarrow> (error + bool) \<times> event list" where
  \<comment> \<open>the common body of the four \<open>check...Exists\<close> functions, on the show command \<open>q\<close>\<close>
  "checkExists K sess log q =
     (case command sess log q of
        (Inl err, log') \<Rightarrow> (Inl (TransportError err), log')
      | (Inr config, log') \<Rightarrow> (Inr (config \<noteq> emptyWord K), log'))"

definition stage :: "session \<Rightarrow> event list \<Rightarrow> string list \<Rightarrow> error option \<times> event list" where
  \<comment> \<open>\<open>if err := sess.configSet(configSet, jnprSess); err != nil { return err }; return nil\<close>\<close>
  "stage sess log ls =
     (case configSet sess log ls of
        (Some err, log') \<Rightarrow> (Some (TransportError err), log')
      | (None, log') \<Rightarrow> (None, log'))"

definition commit :: "session \<Rightarrow> event list \<Rightarrow> string \<Rightarrow> error option \<times> event list" where
  "commit sess log msg =
     (case commitConf sess log msg of
        (Some err, log') \<Rightarrow> (Some (TransportError err), log')
      | (None, log') \<Rightarrow> (None, log'))"

section \<open>Resource junos\_security\_ipsec\_policy: the lifecycle\<close>

definition checkIpsecPolicyExists ::
  "constants \<Rightarrow> session \<Rightarrow> event list \<Rightarrow> string \<Rightarrow> (error + bool) \<times> event list" where
  "checkIpsecPolicyExists K sess log ipsecPolicy =
     checkExists K sess log (''show configuration'' @ '' security ipsec policy '' @ ipsecPolicy @ '' | display set'')"

definition setIpsecPolicy :: "session \<Rightarrow> event list \<Rightarrow> ipsecPolicyData \<Rightarrow> error option \<times> event list" where
  "setIpsecPolicy sess log d = stage sess log (setIpsecPolicy_configSet d)"

definition delIpsecPolicy :: "session \<Rightarrow> event list \<Rightarrow> ipsecPolicyData \<Rightarrow> error option \<times> event list" where
  "delIpsecPolicy sess log d = stage sess log [''delete security ipsec policy '' @ ipd_name d]"

definition readIpsecPolicy ::
  "constants \<Rightarrow> session \<Rightarrow> event list \<Rightarrow> string \<Rightarrow> (error + ipsecPolicyOptions) \<times> event list" where
  "readIpsecPolicy K sess log ipsecPolicy =
     (case command sess log (''show configuration'' @ '' security ipsec policy '' @ ipsecPolicy
                               @ '' | display set relative'') of
        (Inl err, log') \<Rightarrow> (Inl (TransportError err), log')
      | (Inr ipsecPolicyConfig, log') \<Rightarrow> (parseIpsecPolicy K ipsecPolicy ipsecPolicyConfig, log'))"

definition fillIpsecPolicyData :: "ipsecPolicyData \<Rightarrow> ipsecPolicyOptions \<Rightarrow> ipsecPolicyData" where
  "fillIpsecPolicyData d ipsecPolicyOptions =
     d\<lparr> ipd_name := ipo_name ipsecPolicyOptions,
        ipd_proposals := ipo_proposals ipsecPolicyOptions,
        ipd_pfs_keys := ipo_pfsKeys ipsecPolicyOptions \<rparr>"

definition resourceIpsecPolicyRead ::
  "constants \<Rightarrow> session \<Rightarrow> event list \<Rightarrow> ipsecPolicyData
     \<Rightarrow> error option \<times> event list \<times> ipsecPolicyData" where
  "resourceIpsecPolicyRead K sess log d =
     (case startNewSession sess log of
        (Some err, log1) \<Rightarrow> (Some (TransportError err), log1, d)
      | (None, log1) \<Rightarrow> deferred_close
          (case readIpsecPolicy K sess log1 (ipd_name d) of
             (Inl err, log2) \<Rightarrow> (Some err, log2, d)
           | (Inr ipsecPolicyOptions, log2) \<Rightarrow>
               if ipo_name ipsecPolicyOptions = []
               then (None, log2 @ [EvSetId []], d\<lparr> ipd_id := [] \<rparr>)
               else (None, log2, fillIpsecPolicyData d ipsecPolicyOptions)))"

definition resourceIpsecPolicyCreate ::
  "constants \<Rightarrow> session \<Rightarrow> event list \<Rightarrow> ipsecPolicyData
     \<Rightarrow> error option \<times> event list \<times> ipsecPolicyData" where
  "resourceIpsecPolicyCreate K sess log d =
     (case startNewSession sess log of
        (Some err, log1) \<Rightarrow> (Some (TransportError err), log1, d)
      | (None, log1) \<Rightarrow> deferred_close
          (if \<not> checkCompatibilitySecurity sess then (Some UnsupportedOnPlatform, log1, d)
           else
             (case checkIpsecPolicyExists K sess (configLock log1) (ipd_name d) of
                (Inl err, log3) \<Rightarrow> (Some err, configClear log3, d)
              | (Inr ipsecPolicyExists, log3) \<Rightarrow>
                  if ipsecPolicyExists then (Some (AlreadyExists [ipd_name d]), configClear log3, d)
                  else
                    (case setIpsecPolicy sess log3 d of
                       (Some err, log4) \<Rightarrow> (Some err, configClear log4, d)
                     | (None, log4) \<Rightarrow>
                         (case commit sess log4 ''create resource junos_security_ipsec_policy'' of
                            (Some err, log5) \<Rightarrow> (Some err, configClear log5, d)
                          | (None, log5) \<Rightarrow>
                              (case checkIpsecPolicyExists K sess log5 (ipd_name d) of
                                 (Inl err, log6) \<Rightarrow> (Some err, log6, d)
                               | (Inr ipsecPolicyExists', log6) \<Rightarrow>
                                   if ipsecPolicyExists'
                                   then resourceIpsecPolicyRead K sess (log6 @ [EvSetId (ipd_name d)])
                                          (d\<lparr> ipd_id := ipd_name d \<rparr>)
                                   else (Some (CommitVerificationFailed [ipd_name d]), log6, d)))))))"

definition resourceIpsecPolicyUpdate ::
  "constants \<Rightarrow> session \<Rightarrow> event list \<Rightarrow> ipsecPolicyData
     \<Rightarrow> error option \<times> event list \<times> ipsecPolicyData" where
  "resourceIpsecPolicyUpdate K sess log d =
     (case startNewSession sess log of
        (Some err, log1) \<Rightarrow> (Some (TransportError err), log1, d)
      | (None, log1) \<Rightarrow> deferred_close
          (case delIpsecPolicy sess (configLock log1) d of
             (Some err, log2) \<Rightarrow> (Some err, configClear log2, d)
           | (None, log2) \<Rightarrow>
               (case setIpsecPolicy sess log2 d of
                  (Some err, log3) \<Rightarrow> (Some err, configClear log3, d)
                | (None, log3) \<Rightarrow>
                    (case commit sess log3 ''update resource junos_security_ipsec_policy'' of
                       (Some err, log4) \<Rightarrow> (Some err, configClear log4, d)
                     | (None, log4) \<Rightarrow> resourceIpsecPolicyRead K sess log4 d))))"

definition resourceIpsecPolicyDelete ::
  "constants \<Rightarrow> session \<Rightarrow> event list \<Rightarrow> ipsecPolicyData
     \<Rightarrow> error option \<times> event list \<times> ipsecPolicyData" where
  "resourceIpsecPolicyDelete K sess log d =
     (case startNewSession sess log of
        (Some err, log1) \<Rightarrow> (Some (TransportError err), log1, d)
      | (None, log1) \<Rightarrow> deferred_close
          (case delIpsecPolicy sess (configLock log1) d of
             (Some err, log2) \<Rightarrow> (Some err, configClear log2, d)
           | (None, log2) \<Rightarrow>
               (case commit sess log2 ''delete resource junos_security_ipsec_policy'' of
                  (Some err, log3) \<Rightarrow> (Some err, configClear log3, d)
                | (None, log3) \<Rightarrow> (None, log3, d))))"

text \<open>
  \<open>d.Partial\<close> in the update functions only tells the framework which attributes to
  keep when the function fails; it has no counterpart here.
\<close>

section \<open>Resource junos\_security\_ike\_proposal: the lifecycle\<close>

definition checkIkeProposalExists ::
  "constants \<Rightarrow> session \<Rightarrow> event list \<Rightarrow> string \<Rightarrow> (error + bool) \<times> event list" where
  "checkIkeProposalExists K sess log ikeProposal =
     checkExists K sess log (''show configuration'' @ '' security ike proposal '' @ ikeProposal @ '' | display set'')"

definition setIkeProposal :: "session \<Rightarrow> event list \<Rightarrow> ikeProposalData \<Rightarrow> error option \<times> event list" where
  "setIkeProposal sess log d = stage sess log (setIkeProposal_configSet d)"

definition delIkeProposal :: "session \<Rightarrow> event list \<Rightarrow> ikeProposalData \<Rightarrow> error option \<times> event list" where
  "delIkeProposal sess log d = stage sess log [''delete security ike proposal '' @ kpd_name d]"

definition readIkeProposal ::
  "constants \<Rightarrow> session \<Rightarrow> event list \<Rightarrow> string \<Rightarrow> (error + ikeProposalOptions) \<times> event list" where
  "readIkeProposal K sess log ikeProposal =
     (case command sess log (''show configuration'' @ '' security ike proposal '' @ ikeProposal
                               @ '' | display set relative'') of
        (Inl err, log') \<Rightarrow> (Inl (TransportError err), log')
      | (Inr ikeProposalConfig, log') \<Rightarrow> (parseIkeProposal K ikeProposal ikeProposalConfig, log'))"

definition fillIkeProposalData :: "ikeProposalData \<Rightarrow> ikeProposalOptions \<Rightarrow> ikeProposalData" where
  "fillIkeProposalData d ikeProposalOptions =
     d\<lparr> kpd_name := kpo_name ikeProposalOptions,
        kpd_authentication_algorithm := kpo_authenticationAlgorithm ikeProposalOptions,
        kpd_authentication_method := kpo_authenticationMethod ikeProposalOptions,
        kpd_dh_group := kpo_dhGroup ikeProposalOptions,
        kpd_encryption_algorithm := kpo_encryptionAlgorithm ikeProposalOptions,
        kpd_lifetime_seconds := kpo_lifetimeSeconds ikeProposalOptions \<rparr>"

definition resourceIkeProposalRead ::
  "constants \<Rightarrow> session \<Rightarrow> event list \<Rightarrow> ikeProposalData
     \<Rightarrow> error option \<times> event list \<times> ikeProposalData" where
  "resourceIkeProposalRead K sess log d =
     (case startNewSession sess log of
        (Some err, log1) \<Rightarrow> (Some (TransportError err), log1, d)
      | (None, log1) \<Rightarrow> deferred_close
          (case readIkeProposal K sess log1 (kpd_name d) of
             (Inl err, log2) \<Rightarrow> (Some err, log2, d)
           | (Inr ikeProposalOptions, log2) \<Rightarrow>
               if kpo_name ikeProposalOptions = []
               then (None, log2 @ [EvSetId []], d\<lparr> kpd_id := [] \<rparr>)
               else (None, log2, fillIkeProposalData d ikeProposalOptions)))"

definition resourceIkeProposalCreate ::
  "constants \<Rightarrow> session \<Rightarrow> event list \<Rightarrow> ikeProposalData
     \<Rightarrow> error option \<times> event list \<times> ikeProposalData" where
  "resourceIkeProposalCreate K sess log d =
     (case startNewSession sess log of
        (Some err, log1) \<Rightarrow> (Some (TransportError err), log1, d)
      | (None, log1) \<Rightarrow> deferred_close
          (if \<not> checkCompatibilitySecurity sess then (Some UnsupportedOnPlatform, log1, d)
           else
             (case checkIkeProposalExists K sess (configLock log1) (kpd_name d) of
                (Inl err, log3) \<Rightarrow> (Some err, configClear log3, d)
              | (Inr ikeProposalExists, log3) \<Rightarrow>
                  if ikeProposalExists then (Some (AlreadyExists [kpd_name d]), configClear log3, d)
                  else
                    (case setIkeProposal sess log3 d of
                       (Some err, log4) \<Rightarrow> (Some err, configClear log4, d)
                     | (None, log4) \<Rightarrow>
                         (case commit sess log4 ''create resource junos_security_ike_proposal'' of
                            (Some err, log5) \<Rightarrow> (Some err, configClear log5, d)
                          | (None, log5) \<Rightarrow>
                              (case checkIkeProposalExists K sess log5 (kpd_name d) of
                                 (Inl err, log6) \<Rightarrow> (Some err, log6, d)
                               | (Inr ikeProposalExists', log6) \<Rightarrow>
                                   if ikeProposalExists'
                                   then resourceIkeProposalRead K sess (log6 @ [EvSetId (kpd_name d)])
                                          (d\<lparr> kpd_id := kpd_name d \<rparr>)
                                   else (Some (CommitVerificationFailed [kpd_name d]), log6, d)))))))"

definition resourceIkeProposalUpdate ::
  "constants \<Rightarrow> session \<Rightarrow> event list \<Rightarrow> ikeProposalData
     \<Rightarrow> error option \<times> event list \<times> ikeProposalData" where
  "resourceIkeProposalUpdate K sess log d =
     (case startNewSession sess log of
        (Some err, log1) \<Rightarrow> (Some (TransportError err), log1, d)
      | (None, log1) \<Rightarrow> deferred_close
          (case delIkeProposal sess (configLock log1) d of
             (Some err, log2) \<Rightarrow> (Some err, configClear log2, d)
           | (None, log2) \<Rightarrow>
               (case setIkeProposal sess log2 d of
                  (Some err, log3) \<Rightarrow> (Some err, configClear log3, d)
                | (None, log3) \<Rightarrow>
                    (case commit sess log3 ''update resource junos_security_ike_proposal'' of
                       (Some err, log4) \<Rightarrow> (Some err, configClear log4, d)
                     | (None, log4) \<Rightarrow> resourceIkeProposalRead K sess log4 d))))"

definition resourceIkeProposalDelete ::
  "constants \<Rightarrow> session \<Rightarrow> event list \<Rightarrow> ikeProposalData
     \<Rightarrow> error option \<times> event list \<times> ikeProposalData" where
  "resourceIkeProposalDelete K sess log d =
     (case startNewSession sess log of
        (Some err, log1) \<Rightarrow> (Some (TransportError err), log1, d)
      | (None, log1) \<Rightarrow> deferred_close
          (case delIkeProposal sess (configLock log1) d of
             (Some err, log2) \<Rightarrow> (Some err, configClear log2, d)
           | (None, log2) \<Rightarrow>
               (case commit sess log2 ''delete resource junos_security_ike_proposal'' of
                  (Some err, log3) \<Rightarrow> (Some err, configClear log3, d)
                | (None, log3) \<Rightarrow> (None, log3, d))))"

section \<open>Resource junos\_security\_ike\_policy: the lifecycle\<close>

definition checkIkePolicyExists ::
  "constants \<Rightarrow> session \<Rightarrow> event list \<Rightarrow> string \<Rightarrow> (error + bool) \<times> event list" where
  "checkIkePolicyExists K sess log ikePolicy =
     checkExists K sess log (''show configuration security ike policy '' @ ikePolicy @ '' | display set'')"

definition setIkePolicy :: "session \<Rightarrow> event list \<Rightarrow> ikePolicyData \<Rightarrow> error option \<times> event list" where
  "setIkePolicy sess log d =
     (case setIkePolicy_configSet d of
        Inl err \<Rightarrow> (Some err, log)
      | Inr ls \<Rightarrow> stage sess log ls)"

definition delIkePolicy :: "session \<Rightarrow> event list \<Rightarrow> ikePolicyData \<Rightarrow> error option \<times> event list" where
  "delIkePolicy sess log d = stage sess log [''delete security ike policy '' @ kyd_name d]"

definition readIkePolicy ::
  "constants \<Rightarrow> (string \<Rightarrow> string + string) \<Rightarrow> session \<Rightarrow> event list \<Rightarrow> string
     \<Rightarrow> (error + ikePolicyOptions) \<times> event list" where
  "readIkePolicy K dec sess log ikePolicy =
     (case command sess log (''show configuration'' @ '' security ike policy '' @ ikePolicy
                               @ '' | display set relative'') of
        (Inl err, log') \<Rightarrow> (Inl (TransportError err), log')
      | (Inr ikePolicyConfig, log') \<Rightarrow> (parseIkePolicy K dec ikePolicy ikePolicyConfig, log'))"

definition fillIkePolicyData :: "ikePolicyData \<Rightarrow> ikePolicyOptions \<Rightarrow> ikePolicyData" where
  "fillIkePolicyData d ikePolicyOptions =
     d\<lparr> kyd_name := kyo_name ikePolicyOptions,
        kyd_mode := kyo_mode ikePolicyOptions,
        kyd_pre_shared_key_text := kyo_preSharedKeyText ikePolicyOptions,
        kyd_pre_shared_key_hexa := kyo_preSharedKeyHexa ikePolicyOptions,
        kyd_proposals := kyo_proposals ikePolicyOptions \<rparr>"

definition resourceIkePolicyRead ::
  "constants \<Rightarrow> (string \<Rightarrow> string + string) \<Rightarrow> session \<Rightarrow> event list \<Rightarrow> ikePolicyData
     \<Rightarrow> error option \<times> event list \<times> ikePolicyData" where
  "resourceIkePolicyRead K dec sess log d =
     (case startNewSession sess log of
        (Some err, log1) \<Rightarrow> (Some (TransportError err), log1, d)
      | (None, log1) \<Rightarrow> deferred_close
          (case readIkePolicy K dec sess log1 (kyd_name d) of
             (Inl err, log2) \<Rightarrow> (Some err, log2, d)
           | (Inr ikePolicyOptions, log2) \<Rightarrow>
               if kyo_name ikePolicyOptions = []
               then (None, log2 @ [EvSetId []], d\<lparr> kyd_id := [] \<rparr>)
               else (None, log2, fillIkePolicyData d ikePolicyOptions)))"

definition resourceIkePolicyCreate ::
  "constants \<Rightarrow> (string \<Rightarrow> string + string) \<Rightarrow> session \<Rightarrow> event list \<Rightarrow> ikePolicyData
     \<Rightarrow> error option \<times> event list \<times> ikePolicyData" where
  "resourceIkePolicyCreate K dec sess log d =
     (case startNewSession sess log of
        (Some err, log1) \<Rightarrow> (Some (TransportError err), log1, d)
      | (None, log1) \<Rightarrow> deferred_close
          (if \<not> checkCompatibilitySecurity sess then (Some UnsupportedOnPlatform, log1, d)
           else
             (case checkIkePolicyExists K sess (configLock log1) (kyd_name d) of
                (Inl err, log3) \<Rightarrow> (Some err, configClear log3, d)
              | (Inr ikePolicyExists, log3) \<Rightarrow>
                  if ikePolicyExists then (Some (AlreadyExists [kyd_name d]), configClear log3, d)
                  else
                    (case setIkePolicy sess log3 d of
                       (Some err, log4) \<Rightarrow> (Some err, configClear log4, d)
                     | (None, log4) \<Rightarrow>
                         (case commit sess log4 ''create resource junos_security_ike_policy'' of
                            (Some err, log5) \<Rightarrow> (Some err, configClear log5, d)
                          | (None, log5) \<Rightarrow>
                              (case checkIkePolicyExists K sess log5 (kyd_name d) of
                                 (Inl err, log6) \<Rightarrow> (Some err, log6, d)
                               | (Inr ikePolicyExists', log6) \<Rightarrow>
                                   if ikePolicyExists'
                                   then resourceIkePolicyRead K dec sess (log6 @ [EvSetId (kyd_name d)])
                                          (d\<lparr> kyd_id := kyd_name d \<rparr>)
                                   else (Some (CommitVerificationFailed [kyd_name d]), log6, d)))))))"

definition resourceIkePolicyUpdate ::
  "constants \<Rightarrow> (string \<Rightarrow> string + string) \<Rightarrow> session \<Rightarrow> event list \<Rightarrow> ikePolicyData
     \<Rightarrow> error option \<times> event list \<times> ikePolicyData" where
  "resourceIkePolicyUpdate K dec sess log d =
     (case startNewSession sess log of
        (Some err, log1) \<Rightarrow> (Some (TransportError err), log1, d)
      | (None, log1) \<Rightarrow> deferred_close
          (case delIkePolicy sess (configLock log1) d of
             (Some err, log2) \<Rightarrow> (Some err, configClear log2, d)
           | (None, log2) \<Rightarrow>
               (case setIkePolicy sess log2 d of
                  (Some err, log3) \<Rightarrow> (Some err, configClear log3, d)
                | (None, log3) \<Rightarrow>
                    (case commit sess log3 ''update resource junos_security_ike_policy'' of
                       (Some err, log4) \<Rightarrow> (Some err, configClear log4, d)
                     | (None, log4) \<Rightarrow> resourceIkePolicyRead K dec sess log4 d))))"

definition resourceIkePolicyDelete ::
  "constants \<Rightarrow> session \<Rightarrow> event list \<Rightarrow> ikePolicyData
     \<Rightarrow> error option \<times> event list \<times> ikePolicyData" where
  "resourceIkePolicyDelete K sess log d =
     (case startNewSession sess log of
        (Some err, log1) \<Rightarrow> (Some (TransportError err), log1, d)
      | (None, log1) \<Rightarrow> deferred_close
          (case delIkePolicy sess (configLock log1) d of
             (Some err, log2) \<Rightarrow> (Some err, configClear log2, d)
           | (None, log2) \<Rightarrow>
               (case commit sess log2 ''delete resource junos_security_ike_policy'' of
                  (Some err, log3) \<Rightarrow> (Some err, configClear log3, d)
                | (None, log3) \<Rightarrow> (None, log3, d))))"

section \<open>Resource junos\_ospf\_area: the lifecycle\<close>

definition checkOspfAreaExists ::
  "constants \<Rightarrow> session \<Rightarrow> event list \<Rightarrow> string \<Rightarrow> string \<Rightarrow> string \<Rightarrow> (error + bool) \<times> event list" where
  "checkOspfAreaExists K sess log idArea version routingInstance =
     checkExists K sess log
       (''show configuration '' @ ospfArea_path K idArea version routingInstance @ '' | display set'')"

definition setOspfArea :: "constants \<Rightarrow> session \<Rightarrow> event list \<Rightarrow> ospfAreaData \<Rightarrow> error option \<times> event list" where
  "setOspfArea K sess log d = stage sess log (setOspfArea_configSet K d)"

definition delOspfArea :: "constants \<Rightarrow> session \<Rightarrow> event list \<Rightarrow> ospfAreaData \<Rightarrow> error option \<times> event list" where
  "delOspfArea K sess log d =
     stage sess log [''delete '' @ ospfArea_path K (oad_area_id d) (oad_version d) (oad_routing_instance d)]"

definition readOspfArea ::
  "constants \<Rightarrow> session \<Rightarrow> event list \<Rightarrow> string \<Rightarrow> string \<Rightarrow> string
     \<Rightarrow> (error + ospfAreaOptions) \<times> event list" where
  "readOspfArea K sess log idArea version routingInstance =
     (case command sess log (''show configuration '' @ ospfArea_path K idArea version routingInstance
                               @ '' | display set relative'') of
        (Inl err, log') \<Rightarrow> (Inl (TransportError err), log')
      | (Inr ospfAreaConfig, log') \<Rightarrow>
          (parseOspfArea K idArea version routingInstance ospfAreaConfig, log'))"

definition fillOspfAreaData :: "ospfAreaData \<Rightarrow> ospfAreaOptions \<Rightarrow> ospfAreaData" where
  "fillOspfAreaData d ospfAreaOptions =
     d\<lparr> oad_area_id := oao_areaID ospfAreaOptions,
        oad_routing_instance := oao_routingInstance ospfAreaOptions,
        oad_version := oao_version ospfAreaOptions,
        oad_interface := oao_interFace ospfAreaOptions \<rparr>"

definition ospfArea_id :: "constants \<Rightarrow> ospfAreaData \<Rightarrow> string" where
  \<comment> \<open>the identity \<open>resourceOspfAreaCreate\<close> assigns\<close>
  "ospfArea_id K d =
     oad_area_id d @ idSeparator K @ oad_version d @ idSeparator K @ oad_routing_instance d"

definition resourceOspfAreaRead ::
  "constants \<Rightarrow> session \<Rightarrow> event list \<Rightarrow> ospfAreaData
     \<Rightarrow> error option \<times> event list \<times> ospfAreaData" where
  "resourceOspfAreaRead K sess log d =
     (case startNewSession sess log of
        (Some err, log1) \<Rightarrow> (Some (TransportError err), log1, d)
      | (None, log1) \<Rightarrow> deferred_close
          (case readOspfArea K sess log1 (oad_area_id d) (oad_version d) (oad_routing_instance d) of
             (Inl err, log2) \<Rightarrow> (Some err, log2, d)
           | (Inr ospfAreaOptions, log2) \<Rightarrow>
               if oao_areaID ospfAreaOptions = []
               then (None, log2 @ [EvSetId []], d\<lparr> oad_id := [] \<rparr>)
               else (None, log2, fillOspfAreaData d ospfAreaOptions)))"

definition resourceOspfAreaCreate ::
  "constants \<Rightarrow> session \<Rightarrow> event list \<Rightarrow> ospfAreaData
     \<Rightarrow> error option \<times> event list \<times> ospfAreaData" where
  "resourceOspfAreaCreate K sess log d =
     (case startNewSession sess log of
        (Some err, log1) \<Rightarrow> (Some (TransportError err), log1, d)
      | (None, log1) \<Rightarrow> deferred_close
          (case checkOspfAreaExists K sess (configLock log1) (oad_area_id d) (oad_version d)
                  (oad_routing_instance d) of
             (Inl err, log3) \<Rightarrow> (Some err, configClear log3, d)
           | (Inr ospfAreaExists, log3) \<Rightarrow>
               if ospfAreaExists
               then (Some (AlreadyExists [oad_version d, oad_area_id d, oad_routing_instance d]),
                     configClear log3, d)
               else
                 (case setOspfArea K sess log3 d of
                    (Some err, log4) \<Rightarrow> (Some err, configClear log4, d)
                  | (None, log4) \<Rightarrow>
                      (case commit sess log4 ''create resource junos_ospf_area'' of
                         (Some err, log5) \<Rightarrow> (Some err, configClear log5, d)
                       | (None, log5) \<Rightarrow>
                           (case checkOspfAreaExists K sess log5 (oad_area_id d) (oad_version d)
                                   (oad_routing_instance d) of
                              (Inl err, log6) \<Rightarrow> (Some err, log6, d)
                            | (Inr ospfAreaExists', log6) \<Rightarrow>
                                if ospfAreaExists'
                                then resourceOspfAreaRead K sess (log6 @ [EvSetId (ospfArea_id K d)])
                                       (d\<lparr> oad_id := ospfArea_id K d \<rparr>)
                                else (Some (CommitVerificationFailed
                                              [oad_version d, oad_area_id d, oad_routing_instance d]),
                                      log6, d))))))"

definition resourceOspfAreaUpdate ::
  "constants \<Rightarrow> session \<Rightarrow> event list \<Rightarrow> ospfAreaData
     \<Rightarrow> error option \<times> event list \<times> ospfAreaData" where
  "resourceOspfAreaUpdate K sess log d =
     (case startNewSession sess log of
        (Some err, log1) \<Rightarrow> (Some (TransportError err), log1, d)
      | (None, log1) \<Rightarrow> deferred_close
          (case delOspfArea K sess (configLock log1) d of
             (Some err, log2) \<Rightarrow> (Some err, configClear log2, d)
           | (None, log2) \<Rightarrow>
               (case setOspfArea K sess log2 d of
                  (Some err, log3) \<Rightarrow> (Some err, configClear log3, d)
                | (None, log3) \<Rightarrow>
                    (case commit sess log3 ''update resource junos_ospf_area'' of
                       (Some err, log4) \<Rightarrow> (Some err, configClear log4, d)
                     | (None, log4) \<Rightarrow> resourceOspfAreaRead K sess log4 d))))"

definition resourceOspfAreaDelete ::
  "constants \<Rightarrow> session \<Rightarrow> event list \<Rightarrow> ospfAreaData
     \<Rightarrow> error option \<times> event list \<times> ospfAreaData" where
  "resourceOspfAreaDelete K sess log d =
     (case startNewSession sess log of
        (Some err, log1) \<Rightarrow> (Some (TransportError err), log1, d)
      | (None, log1) \<Rightarrow> deferred_close
          (case delOspfArea K sess (configLock log1) d of
             (Some err, log2) \<Rightarrow> (Some err, configClear log2, d)
           | (None, log2) \<Rightarrow>
               (case commit sess log2 ''delete resource junos_ospf_area'' of
                  (Some err, log3) \<Rightarrow> (Some err, configClear log3, d)
                | (None, log3) \<Rightarrow> (None, log3, d))))"

section \<open>Predicates on the log of an operation\<close>

definition is_lock :: "event \<Rightarrow> bool" where
  "is_lock e = (case e of EvConfigLock \<Rightarrow> True | _ \<Rightarrow> False)"

definition is_clear :: "event \<Rightarrow> bool" where
  "is_clear e = (case e of EvConfigClear \<Rightarrow> True | _ \<Rightarrow> False)"

definition is_commit_ok :: "event \<Rightarrow> bool" where
  \<comment> \<open>a call of \<open>commitConf\<close> that returned no error\<close>
  "is_commit_ok e = (case e of EvCommitConf m r \<Rightarrow> r = None | _ \<Rightarrow> False)"

definition is_absent :: "string \<Rightarrow> event \<Rightarrow> bool" where
  \<comment> \<open>a command that answered the empty word: the existence check returns false\<close>
  "is_absent ew e = (case e of EvCommand q r \<Rightarrow> r = Inr ew | _ \<Rightarrow> False)"

definition is_present :: "string \<Rightarrow> event \<Rightarrow> bool" where
  \<comment> \<open>a command that answered a text other than the empty word: the existence check returns true\<close>
  "is_present ew e = (case e of EvCommand q r \<Rightarrow> r \<noteq> Inr ew \<and> isl r = False | _ \<Rightarrow> False)"

definition is_SetId :: "event \<Rightarrow> bool" where
  "is_SetId e = (case e of EvSetId i \<Rightarrow> True | _ \<Rightarrow> False)"

definition is_configSet :: "event \<Rightarrow> bool" where
  "is_configSet e = (case e of EvConfigSet ls r \<Rightarrow> True | _ \<Rightarrow> False)"

definition is_read_event :: "event \<Rightarrow> bool" where
  \<comment> \<open>the calls a read makes: it opens and closes a session, sends a command, may reset the identity\<close>
  "is_read_event e = (case e of EvStartSession r \<Rightarrow> True | EvCloseSession \<Rightarrow> True
      | EvCommand q r \<Rightarrow> True | EvSetId i \<Rightarrow> True | _ \<Rightarrow> False)"

fun commit_then_absent :: "string \<Rightarrow> event list \<Rightarrow> bool" where
  \<comment> \<open>somewhere in the log a commit succeeds and the very next call is an existence check
      that returns false\<close>
  "commit_then_absent ew (e1 # e2 # rest) =
     ((is_commit_ok e1 \<and> is_absent ew e2) \<or> commit_then_absent ew (e2 # rest))"
| "commit_then_absent ew _ = False"

fun lock_then_present :: "string \<Rightarrow> event list \<Rightarrow> bool" where
  \<comment> \<open>the call after taking the lock is an existence check that returns true\<close>
  "lock_then_present ew (e1 # e2 # rest) =
     ((is_lock e1 \<and> is_present ew e2) \<or> lock_then_present ew (e2 # rest))"
| "lock_then_present ew _ = False"

fun ends_with_clear :: "event list \<Rightarrow> bool" where
  \<comment> \<open>\<open>configClear\<close> is the last call before the deferred \<open>closeSession\<close>\<close>
  "ends_with_clear [a, b] = (a = EvConfigClear \<and> b = EvCloseSession)"
| "ends_with_clear (a # b # c # l) = ends_with_clear (b # c # l)"
| "ends_with_clear _ = False"

definition result_of :: "error option \<times> event list \<times> 'd \<Rightarrow> error option" where
  "result_of R = fst R"

definition log_of :: "error option \<times> event list \<times> 'd \<Rightarrow> event list" where
  "log_of R = fst (snd R)"

definition data_of :: "error option \<times> event list \<times> 'd \<Rightarrow> 'd" where
  "data_of R = snd (snd R)"

section \<open>The common shape of the lifecycle functions\<close>

text \<open>
  The create, update and delete functions of the four resources differ only in the
  command of the existence check, the lines they stage, the commit message, the errors
  and the read at their end. The three shapes are written once here; each resource's
  function is proved equal to its instance, and the properties of the protocol are
  proved on the shapes.
\<close>

definition stageLines :: "session \<Rightarrow> event list \<Rightarrow> error + string list \<Rightarrow> error option \<times> event list" where
  "stageLines sess log lines = (case lines of Inl err \<Rightarrow> (Some err, log) | Inr ls \<Rightarrow> stage sess log ls)"

definition createFlow ::
  "constants \<Rightarrow> session \<Rightarrow> event list \<Rightarrow> 'd \<Rightarrow> bool \<Rightarrow> string \<Rightarrow> (error + string list) \<Rightarrow> string
     \<Rightarrow> error \<Rightarrow> error \<Rightarrow> (event list \<Rightarrow> error option \<times> event list \<times> 'd)
     \<Rightarrow> error option \<times> event list \<times> 'd" where
  "createFlow K sess log d compatible q lines msg existsErr verifyErr k =
     (case startNewSession sess log of
        (Some err, log1) \<Rightarrow> (Some (TransportError err), log1, d)
      | (None, log1) \<Rightarrow> deferred_close
          (if \<not> compatible then (Some UnsupportedOnPlatform, log1, d)
           else
             (case checkExists K sess (configLock log1) q of
                (Inl err, log3) \<Rightarrow> (Some err, configClear log3, d)
              | (Inr ex, log3) \<Rightarrow>
                  if ex then (Some existsErr, configClear log3, d)
                  else
                    (case stageLines sess log3 lines of
                       (Some err, log4) \<Rightarrow> (Some err, configClear log4, d)
                     | (None, log4) \<Rightarrow>
                         (case commit sess log4 msg of
                            (Some err, log5) \<Rightarrow> (Some err, configClear log5, d)
                          | (None, log5) \<Rightarrow>
                              (case checkExists K sess log5 q of
                                 (Inl err, log6) \<Rightarrow> (Some err, log6, d)
                               | (Inr ex', log6) \<Rightarrow>
                                   if ex' then k log6 else (Some verifyErr, log6, d)))))))"

definition updateFlow ::
  "session \<Rightarrow> event list \<Rightarrow> 'd \<Rightarrow> string list \<Rightarrow> (error + string list) \<Rightarrow> string
     \<Rightarrow> (event list \<Rightarrow> error option \<times> event list \<times> 'd)
     \<Rightarrow> error option \<times> event list \<times> 'd" where
  "updateFlow sess log d dels lines msg k =
     (case startNewSession sess log of
        (Some err, log1) \<Rightarrow> (Some (TransportError err), log1, d)
      | (None, log1) \<Rightarrow> deferred_close
          (case stage sess (configLock log1) dels of
             (Some err, log2) \<Rightarrow> (Some err, configClear log2, d)
           | (None, log2) \<Rightarrow>
               (case stageLines sess log2 lines of
                  (Some err, log3) \<Rightarrow> (Some err, configClear log3, d)
                | (None, log3) \<Rightarrow>
                    (case commit sess log3 msg of
                       (Some err, log4) \<Rightarrow> (Some err, configClear log4, d)
                     | (None, log4) \<Rightarrow> k log4))))"

definition deleteFlow ::
  "session \<Rightarrow> event list \<Rightarrow> 'd \<Rightarrow> string list \<Rightarrow> string \<Rightarrow> error option \<times> event list \<times> 'd" where
  "deleteFlow sess log d dels msg =
     (case startNewSession sess log of
        (Some err, log1) \<Rightarrow> (Some (TransportError err), log1, d)
      | (None, log1) \<Rightarrow> deferred_close
          (case stage sess (configLock log1) dels of
             (Some err, log2) \<Rightarrow> (Some err, configClear log2, d)
           | (None, log2) \<Rightarrow>
               (case commit sess log2 msg of
                  (Some err, log3) \<Rightarrow> (Some err, configClear log3, d)
                | (None, log3) \<Rightarrow> (None, log3, d))))"

definition failure_before_commit_rolls_back :: "error option \<times> event list \<times> 'd \<Rightarrow> bool" where
  \<comment> \<open>an error under the lock with nothing committed: \<open>configClear\<close> was the last call\<close>
  "failure_before_commit_rolls_back R =
     (result_of R \<noteq> None \<and> list_ex is_lock (log_of R) \<and> \<not> list_ex is_commit_ok (log_of R)
        \<longrightarrow> ends_with_clear (log_of R))"

definition failure_after_commit_keeps :: "error option \<times> event list \<times> 'd \<Rightarrow> bool" where
  \<comment> \<open>an error after a successful commit: \<open>configClear\<close> is never called\<close>
  "failure_after_commit_keeps R =
     (result_of R \<noteq> None \<and> list_ex is_commit_ok (log_of R) \<longrightarrow> \<not> list_ex is_clear (log_of R))"

definition success_commits :: "error option \<times> event list \<times> 'd \<Rightarrow> bool" where
  "success_commits R = (result_of R = None \<longrightarrow> list_ex is_commit_ok (log_of R))"

definition no_failure_after_commit :: "error option \<times> event list \<times> 'd \<Rightarrow> bool" where
  "no_failure_after_commit R = (result_of R \<noteq> None \<longrightarrow> \<not> list_ex is_commit_ok (log_of R))"

section \<open>Sample devices and resource data\<close>

text \<open>Concrete devices and attribute values, for evaluating the operations.\<close>

definition session_absent :: session where
  \<comment> \<open>accepts every call and answers every command with the empty word\<close>
  "session_absent = \<lparr> startNewSession_answer = (\<lambda>log. None),
     command_answer = (\<lambda>log q. Inr ''empty''),
     configSet_answer = (\<lambda>log ls. None),
     commitConf_answer = (\<lambda>log msg. None),
     checkCompatibilitySecurity = True \<rparr>"

definition session_present :: session where
  \<comment> \<open>accepts every call and answers every command with one configuration line\<close>
  "session_present = \<lparr> startNewSession_answer = (\<lambda>log. None),
     command_answer = (\<lambda>log q. Inr ''set proposals p1''),
     configSet_answer = (\<lambda>log ls. None),
     commitConf_answer = (\<lambda>log msg. None),
     checkCompatibilitySecurity = True \<rparr>"

definition session_commit_fails :: session where
  \<comment> \<open>nothing is configured and every commit is refused\<close>
  "session_commit_fails = \<lparr> startNewSession_answer = (\<lambda>log. None),
     command_answer = (\<lambda>log q. Inr ''empty''),
     configSet_answer = (\<lambda>log ls. None),
     commitConf_answer = (\<lambda>log msg. Some ''commit failed''),
     checkCompatibilitySecurity = True \<rparr>"

definition session_applies :: session where
  \<comment> \<open>the object is absent until a commit has succeeded and present afterwards\<close>
  "session_applies = \<lparr> startNewSession_answer = (\<lambda>log. None),
     command_answer = (\<lambda>log q. if list_ex is_commit_ok log then Inr ''set proposals p1'' else Inr ''empty''),
     configSet_answer = (\<lambda>log ls. None),
     commitConf_answer = (\<lambda>log msg. None),
     checkCompatibilitySecurity = True \<rparr>"

definition session_lost_after_commit :: session where
  \<comment> \<open>every command after a successful commit fails\<close>
  "session_lost_after_commit = \<lparr> startNewSession_answer = (\<lambda>log. None),
     command_answer = (\<lambda>log q. if list_ex is_commit_ok log then Inl ''connection lost'' else Inr ''empty''),
     configSet_answer = (\<lambda>log ls. None),
     commitConf_answer = (\<lambda>log msg. None),
     checkCompatibilitySecurity = True \<rparr>"

definition ipsecPolicy_sample :: ipsecPolicyData where
  "ipsecPolicy_sample = \<lparr> ipd_id = [], ipd_name = ''POL1'', ipd_proposals = [''p1'', ''p2''],
     ipd_pfs_keys = ''group14'' \<rparr>"

definition ikeProposal_sample :: ikeProposalData where
  "ikeProposal_sample = \<lparr> kpd_id = [], kpd_name = ''PROP1'', kpd_authentication_algorithm = ''sha-256'',
     kpd_authentication_method = ''pre-shared-keys'', kpd_dh_group = ''group14'',
     kpd_encryption_algorithm = ''aes-256-cbc'', kpd_lifetime_seconds = 3600 \<rparr>"

definition ikePolicy_sample :: ikePolicyData where
  "ikePolicy_sample = \<lparr> kyd_id = [], kyd_name = ''IKEPOL1'', kyd_proposals = [''PROP1''],
     kyd_mode = ''main'', kyd_pre_shared_key_text = [], kyd_pre_shared_key_hexa = [] \<rparr>"

definition ospfArea_sample :: ospfAreaData where
  "ospfArea_sample = \<lparr> oad_id = [], oad_area_id = ''0.0.0.0'', oad_routing_instance = ''default'',
     oad_version = ''v2'',
     oad_interface = [\<lparr> if_name = ''ge-0/0/0'', if_disable = False, if_passive = True,
        if_metric = 100, if_hello_interval = 0, if_retransmit_interval = 0, if_dead_interval = 0 \<rparr>] \<rparr>"

definition decode_identity :: "string \<Rightarrow> string + string" where
  \<comment> \<open>a stand-in for \<open>jdecode.Decode\<close> in evaluations that never reach it\<close>
  "decode_identity s = Inr s"

section \<open>The lifecycle functions are instances of the common shapes\<close>

lemmas session_defs = startNewSession_def closeSession_def configLock_def configClear_def
  command_def configSet_def commitConf_def deferred_close_def checkExists_def stage_def commit_def
  stageLines_def

lemma ipsecPolicy_create_flow:
  "resourceIpsecPolicyCreate K sess log d =
   createFlow K sess log d (checkCompatibilitySecurity sess)
     (''show configuration'' @ '' security ipsec policy '' @ ipd_name d @ '' | display set'')
     (Inr (setIpsecPolicy_configSet d)) ''create resource junos_security_ipsec_policy''
     (AlreadyExists [ipd_name d]) (CommitVerificationFailed [ipd_name d])
     (\<lambda>log6. resourceIpsecPolicyRead K sess (log6 @ [EvSetId (ipd_name d)]) (d\<lparr> ipd_id := ipd_name d \<rparr>))"
  unfolding resourceIpsecPolicyCreate_def createFlow_def checkIpsecPolicyExists_def setIpsecPolicy_def
    stageLines_def sum.case
  by (rule refl)

lemma ipsecPolicy_update_flow:
  "resourceIpsecPolicyUpdate K sess log d =
   updateFlow sess log d [''delete security ipsec policy '' @ ipd_name d]
     (Inr (setIpsecPolicy_configSet d)) ''update resource junos_security_ipsec_policy''
     (\<lambda>log4. resourceIpsecPolicyRead K sess log4 d)"
  unfolding resourceIpsecPolicyUpdate_def updateFlow_def delIpsecPolicy_def setIpsecPolicy_def
    stageLines_def sum.case
  by (rule refl)

lemma ipsecPolicy_delete_flow:
  "resourceIpsecPolicyDelete K sess log d =
   deleteFlow sess log d [''delete security ipsec policy '' @ ipd_name d]
     ''delete resource junos_security_ipsec_policy''"
  unfolding resourceIpsecPolicyDelete_def deleteFlow_def delIpsecPolicy_def
  by (rule refl)

lemma ikeProposal_create_flow:
  "resourceIkeProposalCreate K sess log d =
   createFlow K sess log d (checkCompatibilitySecurity sess)
     (''show configuration'' @ '' security ike proposal '' @ kpd_name d @ '' | display set'')
     (Inr (setIkeProposal_configSet d)) ''create resource junos_security_ike_proposal''
     (AlreadyExists [kpd_name d]) (CommitVerificationFailed [kpd_name d])
     (\<lambda>log6. resourceIkeProposalRead K sess (log6 @ [EvSetId (kpd_name d)]) (d\<lparr> kpd_id := kpd_name d \<rparr>))"
  unfolding resourceIkeProposalCreate_def createFlow_def checkIkeProposalExists_def setIkeProposal_def
    stageLines_def sum.case
  by (rule refl)

lemma ikeProposal_update_flow:
  "resourceIkeProposalUpdate K sess log d =
   updateFlow sess log d [''delete security ike proposal '' @ kpd_name d]
     (Inr (setIkeProposal_configSet d)) ''update resource junos_security_ike_proposal''
     (\<lambda>log4. resourceIkeProposalRead K sess log4 d)"
  unfolding resourceIkeProposalUpdate_def updateFlow_def delIkeProposal_def setIkeProposal_def
    stageLines_def sum.case
  by (rule refl)

lemma ikeProposal_delete_flow:
  "resourceIkeProposalDelete K sess log d =
   deleteFlow sess log d [''delete security ike proposal '' @ kpd_name d]
     ''delete resource junos_security_ike_proposal''"
  unfolding resourceIkeProposalDelete_def deleteFlow_def delIkeProposal_def
  by (rule refl)

lemma ikePolicy_create_flow:
  "resourceIkePolicyCreate K dec sess log d =
   createFlow K sess log d (checkCompatibilitySecurity sess)
     (''show configuration security ike policy '' @ kyd_name d @ '' | display set'')
     (setIkePolicy_configSet d) ''create resource junos_security_ike_policy''
     (AlreadyExists [kyd_name d]) (CommitVerificationFailed [kyd_name d])
     (\<lambda>log6. resourceIkePolicyRead K dec sess (log6 @ [EvSetId (kyd_name d)]) (d\<lparr> kyd_id := kyd_name d \<rparr>))"
  unfolding resourceIkePolicyCreate_def createFlow_def checkIkePolicyExists_def setIkePolicy_def
    stageLines_def
  by (rule refl)

lemma ikePolicy_update_flow:
  "resourceIkePolicyUpdate K dec sess log d =
   updateFlow sess log d [''delete security ike policy '' @ kyd_name d]
     (setIkePolicy_configSet d) ''update resource junos_security_ike_policy''
     (\<lambda>log4. resourceIkePolicyRead K dec sess log4 d)"
  unfolding resourceIkePolicyUpdate_def updateFlow_def delIkePolicy_def setIkePolicy_def
    stageLines_def
  by (rule refl)

lemma ikePolicy_delete_flow:
  "resourceIkePolicyDelete K sess log d =
   deleteFlow sess log d [''delete security ike policy '' @ kyd_name d]
     ''delete resource junos_security_ike_policy''"
  unfolding resourceIkePolicyDelete_def deleteFlow_def delIkePolicy_def
  by (rule refl)

lemma ospfArea_create_flow:
  "resourceOspfAreaCreate K sess log d =
   createFlow K sess log d True
     (''show configuration '' @ ospfArea_path K (oad_area_id d) (oad_version d) (oad_routing_instance d)
        @ '' | display set'')
     (Inr (setOspfArea_configSet K d)) ''create resource junos_ospf_area''
     (AlreadyExists [oad_version d, oad_area_id d, oad_routing_instance d])
     (CommitVerificationFailed [oad_version d, oad_area_id d, oad_routing_instance d])
     (\<lambda>log6. resourceOspfAreaRead K sess (log6 @ [EvSetId (ospfArea_id K d)]) (d\<lparr> oad_id := ospfArea_id K d \<rparr>))"
  unfolding resourceOspfAreaCreate_def createFlow_def checkOspfAreaExists_def setOspfArea_def
    stageLines_def sum.case not_True_eq_False if_False
  by (rule refl)

lemma ospfArea_update_flow:
  "resourceOspfAreaUpdate K sess log d =
   updateFlow sess log d
     [''delete '' @ ospfArea_path K (oad_area_id d) (oad_version d) (oad_routing_instance d)]
     (Inr (setOspfArea_configSet K d)) ''update resource junos_ospf_area''
     (\<lambda>log4. resourceOspfAreaRead K sess log4 d)"
  unfolding resourceOspfAreaUpdate_def updateFlow_def delOspfArea_def setOspfArea_def
    stageLines_def sum.case
  by (rule refl)

lemma ospfArea_delete_flow:
  "resourceOspfAreaDelete K sess log d =
   deleteFlow sess log d
     [''delete '' @ ospfArea_path K (oad_area_id d) (oad_version d) (oad_routing_instance d)]
     ''delete resource junos_ospf_area''"
  unfolding resourceOspfAreaDelete_def deleteFlow_def delOspfArea_def
  by (rule refl)

section \<open>Properties of the common shapes\<close>

lemma event_pred_simps [simp]:
  "\<not> is_commit_ok (EvStartSession r)" "\<not> is_commit_ok EvCloseSession"
  "\<not> is_commit_ok EvConfigLock" "\<not> is_commit_ok EvConfigClear"
  "\<not> is_commit_ok (EvCommand q a)" "\<not> is_commit_ok (EvConfigSet ls b)"
  "is_commit_ok (EvCommitConf m c) = (c = None)" "\<not> is_commit_ok (EvSetId i)"
  "is_absent ew (EvCommand q a) = (a = Inr ew)"
  "\<not> is_absent ew (EvStartSession r)" "\<not> is_absent ew EvCloseSession"
  "\<not> is_absent ew EvConfigLock" "\<not> is_absent ew EvConfigClear"
  "\<not> is_absent ew (EvConfigSet ls b)" "\<not> is_absent ew (EvCommitConf m c)" "\<not> is_absent ew (EvSetId i)"
  "is_present ew (EvCommand q a) = (a \<noteq> Inr ew \<and> \<not> isl a)"
  "\<not> is_present ew (EvStartSession r)" "\<not> is_present ew EvCloseSession"
  "\<not> is_present ew EvConfigLock" "\<not> is_present ew EvConfigClear"
  "\<not> is_present ew (EvConfigSet ls b)" "\<not> is_present ew (EvCommitConf m c)" "\<not> is_present ew (EvSetId i)"
  "is_SetId (EvSetId i)" "\<not> is_SetId (EvStartSession r)" "\<not> is_SetId EvCloseSession"
  "\<not> is_SetId EvConfigLock" "\<not> is_SetId EvConfigClear"
  "\<not> is_SetId (EvCommand q a)" "\<not> is_SetId (EvConfigSet ls b)" "\<not> is_SetId (EvCommitConf m c)"
  "is_configSet (EvConfigSet ls b)" "\<not> is_configSet (EvStartSession r)" "\<not> is_configSet EvCloseSession"
  "\<not> is_configSet EvConfigLock" "\<not> is_configSet EvConfigClear"
  "\<not> is_configSet (EvCommand q a)" "\<not> is_configSet (EvSetId i)" "\<not> is_configSet (EvCommitConf m c)"
  "is_lock EvConfigLock" "\<not> is_lock (EvStartSession r)" "\<not> is_lock EvCloseSession"
  "\<not> is_lock (EvConfigSet ls b)" "\<not> is_lock EvConfigClear"
  "\<not> is_lock (EvCommand q a)" "\<not> is_lock (EvSetId i)" "\<not> is_lock (EvCommitConf m c)"
  "is_clear EvConfigClear" "\<not> is_clear (EvStartSession r)" "\<not> is_clear EvCloseSession"
  "\<not> is_clear (EvConfigSet ls b)" "\<not> is_clear EvConfigLock"
  "\<not> is_clear (EvCommand q a)" "\<not> is_clear (EvSetId i)" "\<not> is_clear (EvCommitConf m c)"
  by (simp_all add: is_commit_ok_def is_absent_def is_present_def is_SetId_def is_configSet_def
      is_lock_def is_clear_def)

lemma read_event_cases:
  "is_read_event e \<Longrightarrow>
     \<not> is_commit_ok e \<and> \<not> is_clear e \<and> \<not> is_lock e \<and> \<not> is_configSet e"
  by (cases e) (simp_all add: is_read_event_def)

lemma read_events_none:
  assumes "list_all is_read_event l"
  shows "\<not> list_ex is_commit_ok l" and "\<not> list_ex is_clear l" and "\<not> list_ex is_lock l"
    and "\<not> list_ex is_configSet l"
  using assms read_event_cases by (auto simp: list_all_iff list_ex_iff)

lemma cta_skip [simp]:
  "\<not> is_commit_ok e \<Longrightarrow> commit_then_absent ew (e # l) = commit_then_absent ew l"
  by (cases l) auto

lemma cta_no_commit: "\<not> list_ex is_commit_ok l \<Longrightarrow> \<not> commit_then_absent ew l"
  by (induction l) auto

lemma cta_append_no_commit:
  "\<not> list_ex is_commit_ok ys \<Longrightarrow> xs = [] \<or> \<not> is_commit_ok (last xs)
   \<Longrightarrow> commit_then_absent ew (xs @ ys) = commit_then_absent ew xs"
proof (induction xs)
  case Nil
  then show ?case by (simp add: cta_no_commit)
next
  case (Cons a xs)
  then show ?case by (cases xs) (simp_all add: cta_no_commit)
qed

lemma ltp_skip [simp]:
  "\<not> is_lock e \<Longrightarrow> lock_then_present ew (e # l) = lock_then_present ew l"
  by (cases l) auto

lemma ltp_no_lock: "\<not> list_ex is_lock l \<Longrightarrow> \<not> lock_then_present ew l"
  by (induction l) auto

lemma ltp_append_no_lock:
  "\<not> list_ex is_lock ys \<Longrightarrow> xs = [] \<or> \<not> is_lock (last xs)
   \<Longrightarrow> lock_then_present ew (xs @ ys) = lock_then_present ew xs"
proof (induction xs)
  case Nil
  then show ?case by (simp add: ltp_no_lock)
next
  case (Cons a xs)
  then show ?case by (cases xs) (simp_all add: ltp_no_lock)
qed

lemma createFlow_cases [consumes 1, case_names start_failed incompatible check_failed exists encode_failed
    stage_failed commit_failed verify_failed verify_absent verified]:
  assumes R: "R = createFlow K sess [] d compatible q lines msg e1 e2 k"
  obtains
    err where "R = (Some (TransportError err), [EvStartSession (Some err)], d)"
  | "R = (Some UnsupportedOnPlatform, [EvStartSession None, EvCloseSession], d)"
  | err where "R = (Some (TransportError err),
          [EvStartSession None, EvConfigLock, EvCommand q (Inl err), EvConfigClear, EvCloseSession], d)"
  | t where "t \<noteq> emptyWord K" "R = (Some e1,
          [EvStartSession None, EvConfigLock, EvCommand q (Inr t), EvConfigClear, EvCloseSession], d)"
  | err where "R = (Some err,
          [EvStartSession None, EvConfigLock, EvCommand q (Inr (emptyWord K)), EvConfigClear,
           EvCloseSession], d)"
  | ls err where "R = (Some (TransportError err),
          [EvStartSession None, EvConfigLock, EvCommand q (Inr (emptyWord K)),
           EvConfigSet ls (Some err), EvConfigClear, EvCloseSession], d)"
  | ls err where "R = (Some (TransportError err),
          [EvStartSession None, EvConfigLock, EvCommand q (Inr (emptyWord K)),
           EvConfigSet ls None, EvCommitConf msg (Some err), EvConfigClear, EvCloseSession], d)"
  | ls err where "R = (Some (TransportError err),
          [EvStartSession None, EvConfigLock, EvCommand q (Inr (emptyWord K)),
           EvConfigSet ls None, EvCommitConf msg None, EvCommand q (Inl err), EvCloseSession], d)"
  | ls where "R = (Some e2,
          [EvStartSession None, EvConfigLock, EvCommand q (Inr (emptyWord K)),
           EvConfigSet ls None, EvCommitConf msg None, EvCommand q (Inr (emptyWord K)),
           EvCloseSession], d)"
  | ls t where "t \<noteq> emptyWord K" "R = deferred_close (k
          [EvStartSession None, EvConfigLock, EvCommand q (Inr (emptyWord K)),
           EvConfigSet ls None, EvCommitConf msg None, EvCommand q (Inr t)])"
proof (cases "startNewSession_answer sess []")
  case (Some err)
  then show ?thesis
    using that(1) [of err] unfolding R createFlow_def by (simp add: startNewSession_def)
next
  case st: None
  show ?thesis
  proof (cases compatible)
    case False
    then show ?thesis
      using that(2) st unfolding R createFlow_def
      by (simp add: startNewSession_def deferred_close_def closeSession_def)
  next
    case co: True
    let ?l2 = "[EvStartSession None, EvConfigLock]"
    show ?thesis
    proof (cases "command_answer sess ?l2 q")
      case (Inl err)
      then show ?thesis
        using that(3) [of err] st co unfolding R createFlow_def by (simp add: session_defs)
    next
      case c1: (Inr t)
      show ?thesis
      proof (cases "t = emptyWord K")
        case False
        then show ?thesis
          using that(4) [of t] st co c1 unfolding R createFlow_def by (simp add: session_defs)
      next
        case ab: True
        let ?l3 = "[EvStartSession None, EvConfigLock, EvCommand q (Inr (emptyWord K))]"
        show ?thesis
        proof (cases lines)
          case (Inl err)
          then show ?thesis
            using that(5) [of err] st co c1 ab unfolding R createFlow_def by (simp add: session_defs)
        next
          case li: (Inr ls)
          show ?thesis
          proof (cases "configSet_answer sess ?l3 ls")
            case (Some err)
            then show ?thesis
              using that(6) [of err ls] st co c1 ab li unfolding R createFlow_def
              by (simp add: session_defs)
          next
            case cs: None
            let ?l4 = "?l3 @ [EvConfigSet ls None]"
            show ?thesis
            proof (cases "commitConf_answer sess ?l4 msg")
              case (Some err)
              then show ?thesis
                using that(7) [of err ls] st co c1 ab li cs unfolding R createFlow_def
                by (simp add: session_defs)
            next
              case cm: None
              let ?l5 = "?l4 @ [EvCommitConf msg None]"
              show ?thesis
              proof (cases "command_answer sess ?l5 q")
                case (Inl err)
                then show ?thesis
                  using that(8) [of err ls] st co c1 ab li cs cm unfolding R createFlow_def
                  by (simp add: session_defs)
              next
                case c2: (Inr t2)
                show ?thesis
                proof (cases "t2 = emptyWord K")
                  case True
                  then show ?thesis
                    using that(9) [of ls] st co c1 ab li cs cm c2 unfolding R createFlow_def
                    by (simp add: session_defs)
                next
                  case False
                  then show ?thesis
                    using that(10) [of t2 ls] st co c1 ab li cs cm c2 unfolding R createFlow_def
                    by (simp add: session_defs)
                qed
              qed
            qed
          qed
        qed
      qed
    qed
  qed
qed

lemma updateFlow_cases [consumes 1, case_names start_failed delete_failed encode_failed stage_failed
    commit_failed committed]:
  assumes R: "R = updateFlow sess [] d dels lines msg k"
  obtains
    err where "R = (Some (TransportError err), [EvStartSession (Some err)], d)"
  | err where "R = (Some (TransportError err),
          [EvStartSession None, EvConfigLock, EvConfigSet dels (Some err), EvConfigClear,
           EvCloseSession], d)"
  | err where "R = (Some err,
          [EvStartSession None, EvConfigLock, EvConfigSet dels None, EvConfigClear,
           EvCloseSession], d)"
  | ls err where "R = (Some (TransportError err),
          [EvStartSession None, EvConfigLock, EvConfigSet dels None,
           EvConfigSet ls (Some err), EvConfigClear, EvCloseSession], d)"
  | ls err where "R = (Some (TransportError err),
          [EvStartSession None, EvConfigLock, EvConfigSet dels None,
           EvConfigSet ls None, EvCommitConf msg (Some err), EvConfigClear, EvCloseSession], d)"
  | ls where "R = deferred_close (k
          [EvStartSession None, EvConfigLock, EvConfigSet dels None,
           EvConfigSet ls None, EvCommitConf msg None])"
proof (cases "startNewSession_answer sess []")
  case (Some err)
  then show ?thesis
    using that(1) [of err] unfolding R updateFlow_def by (simp add: startNewSession_def)
next
  case st: None
  let ?l2 = "[EvStartSession None, EvConfigLock]"
  show ?thesis
  proof (cases "configSet_answer sess ?l2 dels")
    case (Some err)
    then show ?thesis
      using that(2) [of err] st unfolding R updateFlow_def by (simp add: session_defs)
  next
    case dl: None
    let ?l3 = "[EvStartSession None, EvConfigLock, EvConfigSet dels None]"
    show ?thesis
    proof (cases lines)
      case (Inl err)
      then show ?thesis
        using that(3) [of err] st dl unfolding R updateFlow_def by (simp add: session_defs)
    next
      case li: (Inr ls)
      show ?thesis
      proof (cases "configSet_answer sess ?l3 ls")
        case (Some err)
        then show ?thesis
          using that(4) [of err ls] st dl li unfolding R updateFlow_def by (simp add: session_defs)
      next
        case cs: None
        show ?thesis
        proof (cases "commitConf_answer sess (?l3 @ [EvConfigSet ls None]) msg")
          case (Some err)
          then show ?thesis
            using that(5) [of err ls] st dl li cs unfolding R updateFlow_def
            by (simp add: session_defs)
        next
          case None
          then show ?thesis
            using that(6) [of ls] st dl li cs unfolding R updateFlow_def
            by (simp add: session_defs)
        qed
      qed
    qed
  qed
qed

lemma deleteFlow_cases [consumes 1, case_names start_failed delete_failed commit_failed committed]:
  assumes R: "R = deleteFlow sess [] d dels msg"
  obtains
    err where "R = (Some (TransportError err), [EvStartSession (Some err)], d)"
  | err where "R = (Some (TransportError err),
          [EvStartSession None, EvConfigLock, EvConfigSet dels (Some err), EvConfigClear,
           EvCloseSession], d)"
  | err where "R = (Some (TransportError err),
          [EvStartSession None, EvConfigLock, EvConfigSet dels None, EvCommitConf msg (Some err),
           EvConfigClear, EvCloseSession], d)"
  | "R = (None,
          [EvStartSession None, EvConfigLock, EvConfigSet dels None, EvCommitConf msg None,
           EvCloseSession], d)"
proof (cases "startNewSession_answer sess []")
  case (Some err)
  then show ?thesis
    using that(1) [of err] unfolding R deleteFlow_def by (simp add: startNewSession_def)
next
  case st: None
  let ?l2 = "[EvStartSession None, EvConfigLock]"
  show ?thesis
  proof (cases "configSet_answer sess ?l2 dels")
    case (Some err)
    then show ?thesis
      using that(2) [of err] st unfolding R deleteFlow_def by (simp add: session_defs)
  next
    case dl: None
    show ?thesis
    proof (cases "commitConf_answer sess (?l2 @ [EvConfigSet dels None]) msg")
      case (Some err)
      then show ?thesis
        using that(3) [of err] st dl unfolding R deleteFlow_def by (simp add: session_defs)
    next
      case None
      then show ?thesis
        using that(4) st dl unfolding R deleteFlow_def by (simp add: session_defs)
    qed
  qed
qed

lemma read_tail:
  assumes k: "\<And>l. \<exists>ext. log_of (k l) = l @ ext \<and> list_all is_read_event ext"
  obtains ext where "log_of (deferred_close (k l)) = l @ ext @ [EvCloseSession]"
    and "list_all is_read_event ext"
proof -
  obtain ext where e: "log_of (k l) = l @ ext" "list_all is_read_event ext"
    using k by blast
  then have "log_of (deferred_close (k l)) = l @ ext @ [EvCloseSession]"
    by (simp add: log_of_def deferred_close_def closeSession_def)
  then show ?thesis using that e(2) by blast
qed

lemma createFlow_verification:
  assumes k: "\<And>l. \<exists>ext. log_of (k l) = l @ ext \<and> list_all is_read_event ext"
    and h: "commit_then_absent (emptyWord K)
              (log_of (createFlow K sess [] d compatible q lines msg e1 e2 k))"
  shows "result_of (createFlow K sess [] d compatible q lines msg e1 e2 k) = Some e2
     \<and> data_of (createFlow K sess [] d compatible q lines msg e1 e2 k) = d
     \<and> \<not> list_ex is_SetId (log_of (createFlow K sess [] d compatible q lines msg e1 e2 k))"
using refl [of "createFlow K sess [] d compatible q lines msg e1 e2 k"]
proof (cases rule: createFlow_cases)
  case (verified ls t)
  let ?l = "[EvStartSession None, EvConfigLock, EvCommand q (Inr (emptyWord K)),
           EvConfigSet ls None, EvCommitConf msg None, EvCommand q (Inr t)]"
  obtain ext where e: "log_of (deferred_close (k ?l)) = ?l @ ext @ [EvCloseSession]"
    "list_all is_read_event ext"
    using read_tail [OF k] by blast
  have "\<not> list_ex is_commit_ok (ext @ [EvCloseSession])"
    using read_events_none(1) [OF e(2)] by simp
  then have "commit_then_absent (emptyWord K) (?l @ ext @ [EvCloseSession])
      = commit_then_absent (emptyWord K) ?l"
    by (intro cta_append_no_commit) simp_all
  with h verified e show ?thesis by simp
qed (use h in \<open>simp_all add: result_of_def log_of_def data_of_def\<close>)

lemma createFlow_guard:
  assumes k: "\<And>l. \<exists>ext. log_of (k l) = l @ ext \<and> list_all is_read_event ext"
    and h: "lock_then_present (emptyWord K)
              (log_of (createFlow K sess [] d compatible q lines msg e1 e2 k))"
  shows "result_of (createFlow K sess [] d compatible q lines msg e1 e2 k) = Some e1
     \<and> \<not> list_ex is_configSet (log_of (createFlow K sess [] d compatible q lines msg e1 e2 k))"
using refl [of "createFlow K sess [] d compatible q lines msg e1 e2 k"]
proof (cases rule: createFlow_cases)
  case (verified ls t)
  let ?l = "[EvStartSession None, EvConfigLock, EvCommand q (Inr (emptyWord K)),
           EvConfigSet ls None, EvCommitConf msg None, EvCommand q (Inr t)]"
  obtain ext where e: "log_of (deferred_close (k ?l)) = ?l @ ext @ [EvCloseSession]"
    "list_all is_read_event ext"
    using read_tail [OF k] by blast
  have "\<not> list_ex is_lock (ext @ [EvCloseSession])"
    using read_events_none(3) [OF e(2)] by simp
  then have "lock_then_present (emptyWord K) (?l @ ext @ [EvCloseSession])
      = lock_then_present (emptyWord K) ?l"
    by (intro ltp_append_no_lock) simp_all
  with h verified e show ?thesis by simp
qed (use h in \<open>simp_all add: result_of_def log_of_def data_of_def\<close>)

lemmas outcome_defs = failure_before_commit_rolls_back_def failure_after_commit_keeps_def
  success_commits_def no_failure_after_commit_def

lemma createFlow_transaction:
  assumes k: "\<And>l. \<exists>ext. log_of (k l) = l @ ext \<and> list_all is_read_event ext"
  shows "failure_before_commit_rolls_back (createFlow K sess [] d compatible q lines msg e1 e2 k)
     \<and> failure_after_commit_keeps (createFlow K sess [] d compatible q lines msg e1 e2 k)
     \<and> success_commits (createFlow K sess [] d compatible q lines msg e1 e2 k)"
using refl [of "createFlow K sess [] d compatible q lines msg e1 e2 k"]
proof (cases rule: createFlow_cases)
  case (verified ls t)
  let ?l = "[EvStartSession None, EvConfigLock, EvCommand q (Inr (emptyWord K)),
           EvConfigSet ls None, EvCommitConf msg None, EvCommand q (Inr t)]"
  obtain ext where e: "log_of (deferred_close (k ?l)) = ?l @ ext @ [EvCloseSession]"
    "list_all is_read_event ext"
    using read_tail [OF k] by blast
  have "\<not> list_ex is_clear ext"
    using read_events_none(2) [OF e(2)] by simp
  with verified e show ?thesis by (simp add: outcome_defs)
qed (simp_all add: outcome_defs result_of_def log_of_def data_of_def)

lemma updateFlow_transaction:
  assumes k: "\<And>l. \<exists>ext. log_of (k l) = l @ ext \<and> list_all is_read_event ext"
  shows "failure_before_commit_rolls_back (updateFlow sess [] d dels lines msg k)
     \<and> failure_after_commit_keeps (updateFlow sess [] d dels lines msg k)
     \<and> success_commits (updateFlow sess [] d dels lines msg k)"
using refl [of "updateFlow sess [] d dels lines msg k"]
proof (cases rule: updateFlow_cases)
  case (committed ls)
  let ?l = "[EvStartSession None, EvConfigLock, EvConfigSet dels None,
           EvConfigSet ls None, EvCommitConf msg None]"
  obtain ext where e: "log_of (deferred_close (k ?l)) = ?l @ ext @ [EvCloseSession]"
    "list_all is_read_event ext"
    using read_tail [OF k] by blast
  have "\<not> list_ex is_clear ext"
    using read_events_none(2) [OF e(2)] by simp
  with committed e show ?thesis by (simp add: outcome_defs)
qed (simp_all add: outcome_defs result_of_def log_of_def data_of_def)

lemma deleteFlow_transaction:
  "failure_before_commit_rolls_back (deleteFlow sess [] d dels msg)
     \<and> no_failure_after_commit (deleteFlow sess [] d dels msg)
     \<and> success_commits (deleteFlow sess [] d dels msg)"
  using refl [of "deleteFlow sess [] d dels msg"]
  by (cases rule: deleteFlow_cases)
     (simp_all add: outcome_defs result_of_def log_of_def data_of_def)

lemma ipsecPolicy_read_log:
  "\<exists>ext. log_of (resourceIpsecPolicyRead K sess l d) = l @ ext \<and> list_all is_read_event ext"
  by (simp add: resourceIpsecPolicyRead_def readIpsecPolicy_def session_defs log_of_def
      is_read_event_def split: prod.splits sum.splits option.splits)

lemma ikeProposal_read_log:
  "\<exists>ext. log_of (resourceIkeProposalRead K sess l d) = l @ ext \<and> list_all is_read_event ext"
  by (simp add: resourceIkeProposalRead_def readIkeProposal_def session_defs log_of_def
      is_read_event_def split: prod.splits sum.splits option.splits)

lemma ikePolicy_read_log:
  "\<exists>ext. log_of (resourceIkePolicyRead K dec sess l d) = l @ ext \<and> list_all is_read_event ext"
  by (simp add: resourceIkePolicyRead_def readIkePolicy_def session_defs log_of_def
      is_read_event_def split: prod.splits sum.splits option.splits)

lemma ospfArea_read_log:
  "\<exists>ext. log_of (resourceOspfAreaRead K sess l d) = l @ ext \<and> list_all is_read_event ext"
  by (simp add: resourceOspfAreaRead_def readOspfArea_def session_defs log_of_def
      is_read_event_def split: prod.splits sum.splits option.splits)

lemma read_after_SetId:
  assumes "\<And>l. \<exists>ext. log_of (r l) = l @ ext \<and> list_all is_read_event ext"
  shows "\<exists>ext. log_of (r (l @ [EvSetId i])) = l @ ext \<and> list_all is_read_event ext"
proof -
  obtain ext where "log_of (r (l @ [EvSetId i])) = (l @ [EvSetId i]) @ ext" "list_all is_read_event ext"
    using assms by blast
  then have "log_of (r (l @ [EvSetId i])) = l @ (EvSetId i # ext) \<and> list_all is_read_event (EvSetId i # ext)"
    by (simp add: is_read_event_def)
  then show ?thesis by blast
qed

lemma ipsecPolicy_create_reads:
  "\<exists>ext. log_of (resourceIpsecPolicyRead K sess (l @ [EvSetId i]) d) = l @ ext
     \<and> list_all is_read_event ext"
  using read_after_SetId [of "\<lambda>l. resourceIpsecPolicyRead K sess l d", OF ipsecPolicy_read_log] .

lemma ikeProposal_create_reads:
  "\<exists>ext. log_of (resourceIkeProposalRead K sess (l @ [EvSetId i]) d) = l @ ext
     \<and> list_all is_read_event ext"
  using read_after_SetId [of "\<lambda>l. resourceIkeProposalRead K sess l d", OF ikeProposal_read_log] .

lemma ikePolicy_create_reads:
  "\<exists>ext. log_of (resourceIkePolicyRead K dec sess (l @ [EvSetId i]) d) = l @ ext
     \<and> list_all is_read_event ext"
  using read_after_SetId [of "\<lambda>l. resourceIkePolicyRead K dec sess l d", OF ikePolicy_read_log] .

lemma ospfArea_create_reads:
  "\<exists>ext. log_of (resourceOspfAreaRead K sess (l @ [EvSetId i]) d) = l @ ext
     \<and> list_all is_read_event ext"
  using read_after_SetId [of "\<lambda>l. resourceOspfAreaRead K sess l d", OF ospfArea_read_log] .

lemmas lifecycle_eval = session_defs result_of_def log_of_def data_of_def
  junos_consts_def ipsecPolicy_sample_def ikeProposal_sample_def ikePolicy_sample_def
  ospfArea_sample_def ospfArea_path_def ospfVersion_of_def ospfArea_id_def

section \<open>The transaction protocol\<close>

text \<open>
  C1. For the create operation of every resource: if a commit succeeds and the existence
  check that immediately follows it returns false, create fails with the
  commit-verification error, the resource data are returned as they were, and \<open>SetId\<close>
  is never called.
\<close>

theorem create_commit_verification:
  "(commit_then_absent (emptyWord K) (log_of (resourceIpsecPolicyCreate K sess [] d1)) \<longrightarrow>
      result_of (resourceIpsecPolicyCreate K sess [] d1) = Some (CommitVerificationFailed [ipd_name d1])
      \<and> data_of (resourceIpsecPolicyCreate K sess [] d1) = d1
      \<and> \<not> list_ex is_SetId (log_of (resourceIpsecPolicyCreate K sess [] d1)))
   \<and> (commit_then_absent (emptyWord K) (log_of (resourceIkeProposalCreate K sess [] d2)) \<longrightarrow>
      result_of (resourceIkeProposalCreate K sess [] d2) = Some (CommitVerificationFailed [kpd_name d2])
      \<and> data_of (resourceIkeProposalCreate K sess [] d2) = d2
      \<and> \<not> list_ex is_SetId (log_of (resourceIkeProposalCreate K sess [] d2)))
   \<and> (commit_then_absent (emptyWord K) (log_of (resourceIkePolicyCreate K dec sess [] d3)) \<longrightarrow>
      result_of (resourceIkePolicyCreate K dec sess [] d3) = Some (CommitVerificationFailed [kyd_name d3])
      \<and> data_of (resourceIkePolicyCreate K dec sess [] d3) = d3
      \<and> \<not> list_ex is_SetId (log_of (resourceIkePolicyCreate K dec sess [] d3)))
   \<and> (commit_then_absent (emptyWord K) (log_of (resourceOspfAreaCreate K sess [] d4)) \<longrightarrow>
      result_of (resourceOspfAreaCreate K sess [] d4)
        = Some (CommitVerificationFailed [oad_version d4, oad_area_id d4, oad_routing_instance d4])
      \<and> data_of (resourceOspfAreaCreate K sess [] d4) = d4
      \<and> \<not> list_ex is_SetId (log_of (resourceOspfAreaCreate K sess [] d4)))"
  apply (intro conjI)
  subgoal
    unfolding ipsecPolicy_create_flow
    by (rule impI, rule createFlow_verification, rule ipsecPolicy_create_reads, assumption)
  subgoal
    unfolding ikeProposal_create_flow
    by (rule impI, rule createFlow_verification, rule ikeProposal_create_reads, assumption)
  subgoal
    unfolding ikePolicy_create_flow
    by (rule impI, rule createFlow_verification, rule ikePolicy_create_reads, assumption)
  subgoal
    unfolding ospfArea_create_flow
    by (rule impI, rule createFlow_verification, rule ospfArea_create_reads, assumption)
  done

theorem create_commit_verification_witness:
  "commit_then_absent (emptyWord junos_consts)
      (log_of (resourceIpsecPolicyCreate junos_consts session_absent [] ipsecPolicy_sample))
   \<and> result_of (resourceIpsecPolicyCreate junos_consts session_absent [] ipsecPolicy_sample)
       = Some (CommitVerificationFailed [''POL1''])
   \<and> data_of (resourceIpsecPolicyCreate junos_consts session_absent [] ipsecPolicy_sample)
       = ipsecPolicy_sample
   \<and> commit_then_absent (emptyWord junos_consts)
      (log_of (resourceIkeProposalCreate junos_consts session_absent [] ikeProposal_sample))
   \<and> result_of (resourceIkeProposalCreate junos_consts session_absent [] ikeProposal_sample)
       = Some (CommitVerificationFailed [''PROP1''])
   \<and> commit_then_absent (emptyWord junos_consts)
      (log_of (resourceIkePolicyCreate junos_consts decode_identity session_absent [] ikePolicy_sample))
   \<and> result_of (resourceIkePolicyCreate junos_consts decode_identity session_absent [] ikePolicy_sample)
       = Some (CommitVerificationFailed [''IKEPOL1''])
   \<and> commit_then_absent (emptyWord junos_consts)
      (log_of (resourceOspfAreaCreate junos_consts session_absent [] ospfArea_sample))
   \<and> result_of (resourceOspfAreaCreate junos_consts session_absent [] ospfArea_sample)
       = Some (CommitVerificationFailed [''v2'', ''0.0.0.0'', ''default''])"
proof -
  have h1: "commit_then_absent (emptyWord junos_consts)
      (log_of (resourceIpsecPolicyCreate junos_consts session_absent [] ipsecPolicy_sample))"
    by (simp add: resourceIpsecPolicyCreate_def checkIpsecPolicyExists_def setIpsecPolicy_def
        session_absent_def lifecycle_eval)
  have h2: "commit_then_absent (emptyWord junos_consts)
      (log_of (resourceIkeProposalCreate junos_consts session_absent [] ikeProposal_sample))"
    by (simp add: resourceIkeProposalCreate_def checkIkeProposalExists_def setIkeProposal_def
        session_absent_def lifecycle_eval)
  have h3: "commit_then_absent (emptyWord junos_consts)
      (log_of (resourceIkePolicyCreate junos_consts decode_identity session_absent [] ikePolicy_sample))"
    by (simp add: resourceIkePolicyCreate_def checkIkePolicyExists_def setIkePolicy_def
        setIkePolicy_configSet_def session_absent_def lifecycle_eval)
  have h4: "commit_then_absent (emptyWord junos_consts)
      (log_of (resourceOspfAreaCreate junos_consts session_absent [] ospfArea_sample))"
    by (simp add: resourceOspfAreaCreate_def checkOspfAreaExists_def setOspfArea_def
        session_absent_def lifecycle_eval)
  show ?thesis
    using h1 h2 h3 h4
      create_commit_verification [of junos_consts session_absent ipsecPolicy_sample
        ikeProposal_sample decode_identity ikePolicy_sample ospfArea_sample]
    by (simp add: ipsecPolicy_sample_def ikeProposal_sample_def ikePolicy_sample_def
        ospfArea_sample_def)
qed

text \<open>
  C2. For the create operation of every resource: if the existence check made right
  after taking the lock returns true, create fails with the already-exists error and
  \<open>configSet\<close> is never called.
\<close>

theorem create_existence_guard:
  "(lock_then_present (emptyWord K) (log_of (resourceIpsecPolicyCreate K sess [] d1)) \<longrightarrow>
      result_of (resourceIpsecPolicyCreate K sess [] d1) = Some (AlreadyExists [ipd_name d1])
      \<and> \<not> list_ex is_configSet (log_of (resourceIpsecPolicyCreate K sess [] d1)))
   \<and> (lock_then_present (emptyWord K) (log_of (resourceIkeProposalCreate K sess [] d2)) \<longrightarrow>
      result_of (resourceIkeProposalCreate K sess [] d2) = Some (AlreadyExists [kpd_name d2])
      \<and> \<not> list_ex is_configSet (log_of (resourceIkeProposalCreate K sess [] d2)))
   \<and> (lock_then_present (emptyWord K) (log_of (resourceIkePolicyCreate K dec sess [] d3)) \<longrightarrow>
      result_of (resourceIkePolicyCreate K dec sess [] d3) = Some (AlreadyExists [kyd_name d3])
      \<and> \<not> list_ex is_configSet (log_of (resourceIkePolicyCreate K dec sess [] d3)))
   \<and> (lock_then_present (emptyWord K) (log_of (resourceOspfAreaCreate K sess [] d4)) \<longrightarrow>
      result_of (resourceOspfAreaCreate K sess [] d4)
        = Some (AlreadyExists [oad_version d4, oad_area_id d4, oad_routing_instance d4])
      \<and> \<not> list_ex is_configSet (log_of (resourceOspfAreaCreate K sess [] d4)))"
  apply (intro conjI)
  subgoal
    unfolding ipsecPolicy_create_flow
    by (rule impI, rule createFlow_guard, rule ipsecPolicy_create_reads, assumption)
  subgoal
    unfolding ikeProposal_create_flow
    by (rule impI, rule createFlow_guard, rule ikeProposal_create_reads, assumption)
  subgoal
    unfolding ikePolicy_create_flow
    by (rule impI, rule createFlow_guard, rule ikePolicy_create_reads, assumption)
  subgoal
    unfolding ospfArea_create_flow
    by (rule impI, rule createFlow_guard, rule ospfArea_create_reads, assumption)
  done

theorem create_existence_guard_witness:
  "lock_then_present (emptyWord junos_consts)
      (log_of (resourceIpsecPolicyCreate junos_consts session_present [] ipsecPolicy_sample))
   \<and> result_of (resourceIpsecPolicyCreate junos_consts session_present [] ipsecPolicy_sample)
       = Some (AlreadyExists [''POL1''])
   \<and> \<not> list_ex is_configSet
       (log_of (resourceIpsecPolicyCreate junos_consts session_present [] ipsecPolicy_sample))
   \<and> lock_then_present (emptyWord junos_consts)
      (log_of (resourceIkeProposalCreate junos_consts session_present [] ikeProposal_sample))
   \<and> result_of (resourceIkeProposalCreate junos_consts session_present [] ikeProposal_sample)
       = Some (AlreadyExists [''PROP1''])
   \<and> lock_then_present (emptyWord junos_consts)
      (log_of (resourceIkePolicyCreate junos_consts decode_identity session_present [] ikePolicy_sample))
   \<and> result_of (resourceIkePolicyCreate junos_consts decode_identity session_present [] ikePolicy_sample)
       = Some (AlreadyExists [''IKEPOL1''])
   \<and> lock_then_present (emptyWord junos_consts)
      (log_of (resourceOspfAreaCreate junos_consts session_present [] ospfArea_sample))
   \<and> result_of (resourceOspfAreaCreate junos_consts session_present [] ospfArea_sample)
       = Some (AlreadyExists [''v2'', ''0.0.0.0'', ''default''])"
proof -
  have h1: "lock_then_present (emptyWord junos_consts)
      (log_of (resourceIpsecPolicyCreate junos_consts session_present [] ipsecPolicy_sample))"
    by (simp add: resourceIpsecPolicyCreate_def checkIpsecPolicyExists_def
        session_present_def lifecycle_eval)
  have h2: "lock_then_present (emptyWord junos_consts)
      (log_of (resourceIkeProposalCreate junos_consts session_present [] ikeProposal_sample))"
    by (simp add: resourceIkeProposalCreate_def checkIkeProposalExists_def
        session_present_def lifecycle_eval)
  have h3: "lock_then_present (emptyWord junos_consts)
      (log_of (resourceIkePolicyCreate junos_consts decode_identity session_present [] ikePolicy_sample))"
    by (simp add: resourceIkePolicyCreate_def checkIkePolicyExists_def
        session_present_def lifecycle_eval)
  have h4: "lock_then_present (emptyWord junos_consts)
      (log_of (resourceOspfAreaCreate junos_consts session_present [] ospfArea_sample))"
    by (simp add: resourceOspfAreaCreate_def checkOspfAreaExists_def
        session_present_def lifecycle_eval)
  show ?thesis
    using h1 h2 h3 h4
      create_existence_guard [of junos_consts session_present ipsecPolicy_sample
        ikeProposal_sample decode_identity ikePolicy_sample ospfArea_sample]
    by (simp add: ipsecPolicy_sample_def ikeProposal_sample_def ikePolicy_sample_def
        ospfArea_sample_def)
qed

text \<open>
  C3 (as the specification states it) fails. On a device that loses the connection
  after a successful commit, and on one that reports the object absent after a successful
  commit, create takes the lock, commits the staged lines and returns an error without
  ever calling \<open>configClear\<close>: the error is surfaced, the lines are committed and
  not verified.
\<close>

theorem lifecycle_rollback_counterexample:
  "result_of (resourceIpsecPolicyCreate junos_consts session_lost_after_commit [] ipsecPolicy_sample)
     = Some (TransportError ''connection lost'')
   \<and> list_ex is_lock
        (log_of (resourceIpsecPolicyCreate junos_consts session_lost_after_commit [] ipsecPolicy_sample))
   \<and> list_ex is_commit_ok
        (log_of (resourceIpsecPolicyCreate junos_consts session_lost_after_commit [] ipsecPolicy_sample))
   \<and> \<not> list_ex is_clear
        (log_of (resourceIpsecPolicyCreate junos_consts session_lost_after_commit [] ipsecPolicy_sample))
   \<and> result_of (resourceIpsecPolicyCreate junos_consts session_absent [] ipsecPolicy_sample)
     = Some (CommitVerificationFailed [''POL1''])
   \<and> list_ex is_lock
        (log_of (resourceIpsecPolicyCreate junos_consts session_absent [] ipsecPolicy_sample))
   \<and> list_ex is_commit_ok
        (log_of (resourceIpsecPolicyCreate junos_consts session_absent [] ipsecPolicy_sample))
   \<and> \<not> list_ex is_clear
        (log_of (resourceIpsecPolicyCreate junos_consts session_absent [] ipsecPolicy_sample))"
  by (simp add: resourceIpsecPolicyCreate_def checkIpsecPolicyExists_def setIpsecPolicy_def
      session_lost_after_commit_def session_absent_def lifecycle_eval)

text \<open>
  C3 (as the code has it). For create, update and delete of every resource:
  an operation that returns an error after taking the lock and before any commit has
  succeeded has called \<open>configClear\<close> as its last call before the session is closed
  (nothing is committed, the staged lines are cleared); an operation that returns an
  error after a commit has succeeded (the existence check after the commit of create, or
  the read that ends create and update) never calls \<open>configClear\<close>; an operation that
  returns no error has committed. Delete never fails after its commit.
\<close>

theorem lifecycle_rollback:
  "(failure_before_commit_rolls_back (resourceIpsecPolicyCreate K sess [] d1)
      \<and> failure_after_commit_keeps (resourceIpsecPolicyCreate K sess [] d1)
      \<and> success_commits (resourceIpsecPolicyCreate K sess [] d1))
   \<and> (failure_before_commit_rolls_back (resourceIpsecPolicyUpdate K sess [] d1)
      \<and> failure_after_commit_keeps (resourceIpsecPolicyUpdate K sess [] d1)
      \<and> success_commits (resourceIpsecPolicyUpdate K sess [] d1))
   \<and> (failure_before_commit_rolls_back (resourceIpsecPolicyDelete K sess [] d1)
      \<and> no_failure_after_commit (resourceIpsecPolicyDelete K sess [] d1)
      \<and> success_commits (resourceIpsecPolicyDelete K sess [] d1))
   \<and> (failure_before_commit_rolls_back (resourceIkeProposalCreate K sess [] d2)
      \<and> failure_after_commit_keeps (resourceIkeProposalCreate K sess [] d2)
      \<and> success_commits (resourceIkeProposalCreate K sess [] d2))
   \<and> (failure_before_commit_rolls_back (resourceIkeProposalUpdate K sess [] d2)
      \<and> failure_after_commit_keeps (resourceIkeProposalUpdate K sess [] d2)
      \<and> success_commits (resourceIkeProposalUpdate K sess [] d2))
   \<and> (failure_before_commit_rolls_back (resourceIkeProposalDelete K sess [] d2)
      \<and> no_failure_after_commit (resourceIkeProposalDelete K sess [] d2)
      \<and> success_commits (resourceIkeProposalDelete K sess [] d2))
   \<and> (failure_before_commit_rolls_back (resourceIkePolicyCreate K dec sess [] d3)
      \<and> failure_after_commit_keeps (resourceIkePolicyCreate K dec sess [] d3)
      \<and> success_commits (resourceIkePolicyCreate K dec sess [] d3))
   \<and> (failure_before_commit_rolls_back (resourceIkePolicyUpdate K dec sess [] d3)
      \<and> failure_after_commit_keeps (resourceIkePolicyUpdate K dec sess [] d3)
      \<and> success_commits (resourceIkePolicyUpdate K dec sess [] d3))
   \<and> (failure_before_commit_rolls_back (resourceIkePolicyDelete K sess [] d3)
      \<and> no_failure_after_commit (resourceIkePolicyDelete K sess [] d3)
      \<and> success_commits (resourceIkePolicyDelete K sess [] d3))
   \<and> (failure_before_commit_rolls_back (resourceOspfAreaCreate K sess [] d4)
      \<and> failure_after_commit_keeps (resourceOspfAreaCreate K sess [] d4)
      \<and> success_commits (resourceOspfAreaCreate K sess [] d4))
   \<and> (failure_before_commit_rolls_back (resourceOspfAreaUpdate K sess [] d4)
      \<and> failure_after_commit_keeps (resourceOspfAreaUpdate K sess [] d4)
      \<and> success_commits (resourceOspfAreaUpdate K sess [] d4))
   \<and> (failure_before_commit_rolls_back (resourceOspfAreaDelete K sess [] d4)
      \<and> no_failure_after_commit (resourceOspfAreaDelete K sess [] d4)
      \<and> success_commits (resourceOspfAreaDelete K sess [] d4))"
proof -
  have c1: "failure_before_commit_rolls_back (resourceIpsecPolicyCreate K sess [] d1)
      \<and> failure_after_commit_keeps (resourceIpsecPolicyCreate K sess [] d1)
      \<and> success_commits (resourceIpsecPolicyCreate K sess [] d1)"
    unfolding ipsecPolicy_create_flow
    by (rule createFlow_transaction, rule ipsecPolicy_create_reads)
  have u1: "failure_before_commit_rolls_back (resourceIpsecPolicyUpdate K sess [] d1)
      \<and> failure_after_commit_keeps (resourceIpsecPolicyUpdate K sess [] d1)
      \<and> success_commits (resourceIpsecPolicyUpdate K sess [] d1)"
    unfolding ipsecPolicy_update_flow
    by (rule updateFlow_transaction, rule ipsecPolicy_read_log)
  have x1: "failure_before_commit_rolls_back (resourceIpsecPolicyDelete K sess [] d1)
      \<and> no_failure_after_commit (resourceIpsecPolicyDelete K sess [] d1)
      \<and> success_commits (resourceIpsecPolicyDelete K sess [] d1)"
    unfolding ipsecPolicy_delete_flow by (rule deleteFlow_transaction)
  have c2: "failure_before_commit_rolls_back (resourceIkeProposalCreate K sess [] d2)
      \<and> failure_after_commit_keeps (resourceIkeProposalCreate K sess [] d2)
      \<and> success_commits (resourceIkeProposalCreate K sess [] d2)"
    unfolding ikeProposal_create_flow
    by (rule createFlow_transaction, rule ikeProposal_create_reads)
  have u2: "failure_before_commit_rolls_back (resourceIkeProposalUpdate K sess [] d2)
      \<and> failure_after_commit_keeps (resourceIkeProposalUpdate K sess [] d2)
      \<and> success_commits (resourceIkeProposalUpdate K sess [] d2)"
    unfolding ikeProposal_update_flow
    by (rule updateFlow_transaction, rule ikeProposal_read_log)
  have x2: "failure_before_commit_rolls_back (resourceIkeProposalDelete K sess [] d2)
      \<and> no_failure_after_commit (resourceIkeProposalDelete K sess [] d2)
      \<and> success_commits (resourceIkeProposalDelete K sess [] d2)"
    unfolding ikeProposal_delete_flow by (rule deleteFlow_transaction)
  have c3: "failure_before_commit_rolls_back (resourceIkePolicyCreate K dec sess [] d3)
      \<and> failure_after_commit_keeps (resourceIkePolicyCreate K dec sess [] d3)
      \<and> success_commits (resourceIkePolicyCreate K dec sess [] d3)"
    unfolding ikePolicy_create_flow
    by (rule createFlow_transaction, rule ikePolicy_create_reads)
  have u3: "failure_before_commit_rolls_back (resourceIkePolicyUpdate K dec sess [] d3)
      \<and> failure_after_commit_keeps (resourceIkePolicyUpdate K dec sess [] d3)
      \<and> success_commits (resourceIkePolicyUpdate K dec sess [] d3)"
    unfolding ikePolicy_update_flow
    by (rule updateFlow_transaction, rule ikePolicy_read_log)
  have x3: "failure_before_commit_rolls_back (resourceIkePolicyDelete K sess [] d3)
      \<and> no_failure_after_commit (resourceIkePolicyDelete K sess [] d3)
      \<and> success_commits (resourceIkePolicyDelete K sess [] d3)"
    unfolding ikePolicy_delete_flow by (rule deleteFlow_transaction)
  have c4: "failure_before_commit_rolls_back (resourceOspfAreaCreate K sess [] d4)
      \<and> failure_after_commit_keeps (resourceOspfAreaCreate K sess [] d4)
      \<and> success_commits (resourceOspfAreaCreate K sess [] d4)"
    unfolding ospfArea_create_flow
    by (rule createFlow_transaction, rule ospfArea_create_reads)
  have u4: "failure_before_commit_rolls_back (resourceOspfAreaUpdate K sess [] d4)
      \<and> failure_after_commit_keeps (resourceOspfAreaUpdate K sess [] d4)
      \<and> success_commits (resourceOspfAreaUpdate K sess [] d4)"
    unfolding ospfArea_update_flow
    by (rule updateFlow_transaction, rule ospfArea_read_log)
  have x4: "failure_before_commit_rolls_back (resourceOspfAreaDelete K sess [] d4)
      \<and> no_failure_after_commit (resourceOspfAreaDelete K sess [] d4)
      \<and> success_commits (resourceOspfAreaDelete K sess [] d4)"
    unfolding ospfArea_delete_flow by (rule deleteFlow_transaction)
  from c1 u1 x1 c2 u2 x2 c3 u3 x3 c4 u4 x4 show ?thesis by blast
qed

section \<open>The encoder on the example of the specification\<close>

text \<open>
  C5 (as the code has it). Encoding an ipsec-policy record with proposals p1, p2 and
  pfs-keys group14 for the policy POL1: \<open>setIpsecPolicy\<close> stages exactly three lines, each
  a full set statement, with the perfect-forward-secrecy line first and the proposals
  after it in list order.
\<close>

theorem setIpsecPolicy_example:
  "setIpsecPolicy_configSet \<lparr> ipd_id = [], ipd_name = ''POL1'', ipd_proposals = [''p1'', ''p2''],
       ipd_pfs_keys = ''group14'' \<rparr>
   = [''set security ipsec policy POL1 perfect-forward-secrecy keys group14'',
      ''set security ipsec policy POL1 proposals p1'',
      ''set security ipsec policy POL1 proposals p2'']"
  by (simp add: setIpsecPolicy_configSet_def)

text \<open>
  C5 (as the specification states it) fails: the three lines of the specification, in its
  order and without the leading set keyword, are not what \<open>setIpsecPolicy\<close> stages.
\<close>

theorem setIpsecPolicy_example_counterexample:
  "setIpsecPolicy_configSet \<lparr> ipd_id = [], ipd_name = ''POL1'', ipd_proposals = [''p1'', ''p2''],
       ipd_pfs_keys = ''group14'' \<rparr>
   \<noteq> [''security ipsec policy POL1 proposals p1'',
      ''security ipsec policy POL1 proposals p2'',
      ''security ipsec policy POL1 perfect-forward-secrecy keys group14'']"
  by (simp add: setIpsecPolicy_configSet_def)

end
